theory Spec2Isabelle
  imports Main "HOL-Library.Sublist"
begin

section \<open>Strings\<close>

text \<open>
  A JavaScript string is a sequence of UTF-16 code units. The model is \<^typ>\<open>string\<close>: the
  code units below 256 (ASCII and Latin-1). On these, \<open>String.prototype.trim\<close>, the regular
  expression class \<open>\s\<close> and \<open>toLowerCase\<close> are the functions below.
\<close>

definition is_line_terminator :: "char \<Rightarrow> bool" where
  "is_line_terminator c = (c = CHR 0x0A \<or> c = CHR 0x0D)"

definition is_space :: "char \<Rightarrow> bool" where
  "is_space c = (c = CHR 0x09 \<or> c = CHR 0x0A \<or> c = CHR 0x0B \<or> c = CHR 0x0C \<or> c = CHR 0x0D
     \<or> c = CHR 0x20 \<or> c = CHR 0xA0)"

definition trim :: "string \<Rightarrow> string" where
  "trim s = rev (dropWhile is_space (rev (dropWhile is_space s)))"

definition lower_char :: "char \<Rightarrow> char" where
  "lower_char c =
     (let n = (of_char c :: nat) in
      if (0x41 \<le> n \<and> n \<le> 0x5A) \<or> (0xC0 \<le> n \<and> n \<le> 0xDE \<and> n \<noteq> 0xD7)
      then char_of (n + 0x20) else c)"

definition toLowerCase :: "string \<Rightarrow> string" where
  "toLowerCase s = map lower_char s"

text \<open>\<open>s.startsWith(p)\<close>\<close>

fun startsWith :: "string \<Rightarrow> string \<Rightarrow> bool" where
  "startsWith s [] = True"
| "startsWith [] (p # ps) = False"
| "startsWith (c # cs) (p # ps) = (c = p \<and> startsWith cs ps)"

text \<open>\<open>s.split(sep)\<close> for a separator of one character: one piece more than separators.\<close>

fun split_on :: "char \<Rightarrow> string \<Rightarrow> string list" where
  "split_on sep [] = [[]]"
| "split_on sep (c # cs) =
     (if c = sep then [] # split_on sep cs
      else (case split_on sep cs of [] \<Rightarrow> [[c]] | w # ws \<Rightarrow> (c # w) # ws))"

section \<open>wiki-link.ts\<close>

text \<open>
  \<open>raw.match(/^\[\[(.+)\]\]$/)\<close>: the whole string is \<open>[[\<close>, one or more characters none of
  which is a line terminator, \<open>]]\<close>. Both ends are anchored, so the group is the middle.
\<close>

definition parseWikiLink :: "string \<Rightarrow> string" where
  "parseWikiLink raw =
     (let n = length raw; mid = take (n - 4) (drop 2 raw) in
      if 5 \<le> n \<and> take 2 raw = ''[['' \<and> drop (n - 2) raw = '']]'' \<and> \<not> list_ex is_line_terminator mid
      then mid else raw)"

text \<open>\<open>s.replace(/\s+/g, "-")\<close>: every maximal run of white space becomes one hyphen.\<close>

function hyphenate :: "string \<Rightarrow> string" where
  "hyphenate [] = []"
| "hyphenate (c # cs) =
     (if is_space c then CHR ''-'' # hyphenate (dropWhile is_space cs) else c # hyphenate cs)"
  by pat_completeness auto
termination
  by (relation "measure length") (auto simp: length_dropWhile_le less_Suc_eq_le)

definition toSlug :: "string \<Rightarrow> string" where
  "toSlug name = hyphenate (trim name)"

definition slugFromPath :: "string \<Rightarrow> string" where
  "slugFromPath filePath =
     (let filename = last (split_on CHR ''/'' filePath); n = length filename in
      if 3 \<le> n \<and> drop (n - 3) filename = ''.md'' then take (n - 3) filename else filename)"

section \<open>validators.ts\<close>

text \<open>
  Values a schema can be given: what the front-matter reader produces, and the strings of a
  catalog record. A date carries its \<open>toISOString()\<close>. An object is its property lookup,
  \<^term>\<open>JUndefined\<close> for a property it does not have.
\<close>

datatype jsval =
    JUndefined
  | JNull
  | JBool bool
  | JNum int
  | JStr string
  | JDate string
  | JArr "jsval list"
  | JObj "(string \<times> jsval) list"

type_synonym jsobject = "string \<Rightarrow> jsval"

text \<open>The result of \<open>schema.safeParse(x)\<close>: \<open>success: false\<close>, or \<open>success: true\<close> with the data.\<close>

datatype 'a safeParse = Failure | Success 'a

text \<open>\<open>z.string().optional().nullable()\<close>: a string, or null/undefined (\<^term>\<open>None\<close>).\<close>

fun optionalNullableString :: "jsval \<Rightarrow> string option safeParse" where
  "optionalNullableString JUndefined = Success None"
| "optionalNullableString JNull = Success None"
| "optionalNullableString (JStr s) = Success (Some s)"
| "optionalNullableString _ = Failure"

fun the_strings :: "jsval list \<Rightarrow> string list option" where
  "the_strings [] = Some []"
| "the_strings (JStr s # vs) = (case the_strings vs of None \<Rightarrow> None | Some ss \<Rightarrow> Some (s # ss))"
| "the_strings (_ # vs) = None"

text \<open>
  \<open>z.union([z.string(), z.array(z.string())]).optional().nullable()\<close> with the transform of
  \<open>optionalStringArray\<close>: null and undefined give the empty list, a string a list of one.
\<close>

fun optionalStringArray :: "jsval \<Rightarrow> string list safeParse" where
  "optionalStringArray JUndefined = Success []"
| "optionalStringArray JNull = Success []"
| "optionalStringArray (JStr s) = Success [s]"
| "optionalStringArray (JArr vs) = (case the_strings vs of None \<Rightarrow> Failure | Some ss \<Rightarrow> Success ss)"
| "optionalStringArray _ = Failure"

definition optionalWikiLinkArray :: "jsval \<Rightarrow> string list safeParse" where
  "optionalWikiLinkArray v =
     (case optionalStringArray v of Failure \<Rightarrow> Failure | Success arr \<Rightarrow> Success (map parseWikiLink arr))"

text \<open>\<open>wikiLinkSchema.optional().nullable()\<close>\<close>

fun optionalWikiLink :: "jsval \<Rightarrow> string option safeParse" where
  "optionalWikiLink JUndefined = Success None"
| "optionalWikiLink JNull = Success None"
| "optionalWikiLink (JStr s) = Success (Some (parseWikiLink s))"
| "optionalWikiLink _ = Failure"

text \<open>The transform of \<open>statusSchema\<close>; \<open>!val\<close> holds of null, undefined and the empty string.\<close>

definition normalizeStatus :: "string option \<Rightarrow> string option" where
  "normalizeStatus val =
     (case val of
        None \<Rightarrow> None
      | Some v \<Rightarrow>
          if v = [] then None
          else let n = toLowerCase (trim v) in
            if n = ''finished'' then Some ''finished''
            else if n = ''started'' then Some ''started''
            else if n = ''bought'' then Some ''bought''
            else if startsWith n ''not start'' then Some ''not started''
            else if n = ''not finished'' then Some ''started''
            else None)"

definition statusSchema :: "jsval \<Rightarrow> string option safeParse" where
  "statusSchema v =
     (case optionalNullableString v of Failure \<Rightarrow> Failure | Success val \<Rightarrow> Success (normalizeStatus val))"

definition normalizePlatform :: "string option \<Rightarrow> string option" where
  "normalizePlatform val =
     (case val of
        None \<Rightarrow> None
      | Some v \<Rightarrow>
          if v = [] then None
          else let trimmed = trim v in
            if trimmed = ''Xbok 360'' then Some ''Xbox 360''
            else if trimmed = [] then None else Some trimmed)"

definition platformSchema :: "jsval \<Rightarrow> string option safeParse" where
  "platformSchema v =
     (case optionalNullableString v of Failure \<Rightarrow> Failure | Success val \<Rightarrow> Success (normalizePlatform val))"

text \<open>\<open>(v) => v?.trim() || null\<close>\<close>

definition trimOrNull :: "string option \<Rightarrow> string option" where
  "trimOrNull val =
     (case val of None \<Rightarrow> None | Some v \<Rightarrow> if trim v = [] then None else Some (trim v))"

definition trimmedTextSchema :: "jsval \<Rightarrow> string option safeParse" where
  "trimmedTextSchema v =
     (case optionalNullableString v of Failure \<Rightarrow> Failure | Success val \<Rightarrow> Success (trimOrNull val))"

record CsvRow =
  csv_name :: string
  csv_status :: "string option"
  csv_platform :: "string option"
  csv_notes :: "string option"

text \<open>\<open>csvRowSchema\<close>: \<open>name\<close> is a required string; unknown keys are dropped.\<close>

definition csvRowSchema :: "jsobject \<Rightarrow> CsvRow safeParse" where
  "csvRowSchema r =
     (case r ''name'' of
        JStr v \<Rightarrow>
          (case statusSchema (r ''status'') of
             Failure \<Rightarrow> Failure
           | Success st \<Rightarrow>
               (case platformSchema (r ''platform'') of
                  Failure \<Rightarrow> Failure
                | Success pl \<Rightarrow>
                    (case trimmedTextSchema (r ''notes'') of
                       Failure \<Rightarrow> Failure
                     | Success nt \<Rightarrow>
                         Success \<lparr>csv_name = trim v, csv_status = st, csv_platform = pl,
                           csv_notes = nt\<rparr>)))
      | _ \<Rightarrow> Failure)"

section \<open>csv-parser.ts\<close>

text \<open>
  \<open>line.replace(/,\s*$/, "")\<close>: the first comma after which only white space follows, up to
  the end of the string, is removed together with that white space.
\<close>

fun strip_trailing_comma :: "string \<Rightarrow> string" where
  "strip_trailing_comma [] = []"
| "strip_trailing_comma (c # cs) =
     (if c = CHR '','' \<and> list_all is_space cs then [] else c # strip_trailing_comma cs)"

definition splitCsvLine :: "string \<Rightarrow> string list" where
  "splitCsvLine line = map trim (split_on CHR '','' line)"

text \<open>A value is falsy (\<open>!v\<close>) when it is undefined, null, false, zero or the empty string.\<close>

fun truthy :: "jsval \<Rightarrow> bool" where
  "truthy JUndefined = False"
| "truthy JNull = False"
| "truthy (JBool b) = b"
| "truthy (JNum n) = (n \<noteq> 0)"
| "truthy (JStr s) = (s \<noteq> [])"
| "truthy _ = True"

text \<open>
  The inner loop \<open>record[header[j]] = (values[j] ?? "").trim()\<close> for \<open>j\<close> below the length of
  the header: a later column of the same name overwrites an earlier one.
\<close>

definition csv_record :: "string list \<Rightarrow> string list \<Rightarrow> jsobject" where
  "csv_record header values =
     fold (\<lambda>j record. record(header ! j := JStr (trim (if j < length values then values ! j else []))))
       [0..<length header] (\<lambda>k. JUndefined)"

record ParsedCsvGame =
  csv_slug :: string
  csv_row :: CsvRow

text \<open>
  The loop over the data lines, \<open>i\<close> the index of the first of them. The result is the list
  \<open>results\<close> and the line numbers of the \<open>console.warn\<close> diagnostics.
\<close>

fun csv_loop :: "string list \<Rightarrow> nat \<Rightarrow> string list \<Rightarrow> ParsedCsvGame list \<times> nat list" where
  "csv_loop header i [] = ([], [])"
| "csv_loop header i (l # ls) =
     (let line = strip_trailing_comma l;
          values = splitCsvLine line;
          record = csv_record header values;
          (results, warnings) = csv_loop header (Suc i) ls
      in if \<not> truthy (record ''name'') \<or> record ''name'' = JStr [] then (results, warnings)
         else (case csvRowSchema record of
                 Failure \<Rightarrow> (results, (i + 1) # warnings)
               | Success d \<Rightarrow> (\<lparr>csv_slug = toSlug (csv_name d), csv_row = d\<rparr> # results, warnings)))"

datatype io_error = ReadError

text \<open>
  \<open>parseCsvFile\<close>, given what \<open>fs.readFileSync\<close> finds: the text of the file, or nothing when
  the file cannot be read, which raises.
\<close>

definition csv_lines :: "string \<Rightarrow> string list" where
  "csv_lines raw = filter (\<lambda>line. trim line \<noteq> []) (split_on CHR 0x0A raw)"

definition csv_header :: "string \<Rightarrow> string list" where
  "csv_header first =
     map (\<lambda>h. toLowerCase (trim h)) (split_on CHR '','' (strip_trailing_comma first))"

definition parseCsvFile :: "string option \<Rightarrow> io_error + (ParsedCsvGame list \<times> nat list)" where
  "parseCsvFile file =
     (case file of
        None \<Rightarrow> Inl ReadError
      | Some raw \<Rightarrow>
          (case csv_lines raw of
             [] \<Rightarrow> Inr ([], [])
           | first # rest \<Rightarrow> Inr (csv_loop (csv_header first) 1 rest)))"

text \<open>
  The name of a data line, for stating what the parser keeps: the \<open>name\<close> property of the
  line's record when it is a string that is not empty.
\<close>

definition name_of_line :: "string list \<Rightarrow> string \<Rightarrow> string option" where
  "name_of_line header l =
     (case csv_record header (splitCsvLine (strip_trailing_comma l)) ''name'' of
        JStr n \<Rightarrow> if n = [] then None else Some n
      | _ \<Rightarrow> None)"

section \<open>parser.ts\<close>

text \<open>
  The body \<open>#{1,3}\s+(.+)$\<close> of both heading expressions (flag \<open>m\<close>), matched at the start of
  a string by backtracking, every quantifier greedy: the hashes are tried from the most down,
  the white space (which includes line terminators) from the longest run down, and \<open>(.+)\<close>
  takes the characters up to the next line terminator, where \<open>$\<close> holds. The result is the
  length of the match and the text of the group.
\<close>

definition dot_plus_eol :: "string \<Rightarrow> string option" where
  "dot_plus_eol s =
     (let t = takeWhile (\<lambda>c. \<not> is_line_terminator c) s in if t = [] then None else Some t)"

fun spaces_then :: "nat \<Rightarrow> string \<Rightarrow> (nat \<times> string) option" where
  "spaces_then 0 s = None"
| "spaces_then (Suc w) s =
     (case dot_plus_eol (drop (Suc w) s) of
        Some t \<Rightarrow> Some (Suc w, t)
      | None \<Rightarrow> spaces_then w s)"

fun hashes_then :: "nat \<Rightarrow> string \<Rightarrow> (nat \<times> string) option" where
  "hashes_then 0 s = None"
| "hashes_then (Suc h) s =
     (case spaces_then (length (takeWhile is_space (drop (Suc h) s))) (drop (Suc h) s) of
        Some (w, t) \<Rightarrow> Some (Suc h + w + length t, t)
      | None \<Rightarrow> hashes_then h s)"

definition heading_at :: "string \<Rightarrow> (nat \<times> string) option" where
  "heading_at s = hashes_then (min 3 (length (takeWhile (\<lambda>c. c = CHR ''#'') s))) s"

lemma spaces_then_pos: "spaces_then w s = Some (n, t) \<Longrightarrow> 0 < n"
  by (induction w) (auto split: option.splits)

lemma hashes_then_pos: "hashes_then h s = Some (n, t) \<Longrightarrow> 0 < n"
  by (induction h) (auto split: option.splits)

lemma heading_at_pos: "heading_at s = Some (n, t) \<Longrightarrow> 0 < n"
  unfolding heading_at_def by (rule hashes_then_pos)

text \<open>
  The loop \<open>while ((match = headingRegex.exec(content)) !== null)\<close> for
  \<open>/^#{1,3}\s+(.+)$/gm\<close>, on the rest of the content from position \<open>pos\<close>; \<open>bol\<close> says that
  \<open>^\<close> holds there (the start of the content, or after a line terminator). Each match gives
  the heading's name and \<open>match.index + match[0].length\<close>, and the search goes on from the end
  of the match, which is not the beginning of a line.
\<close>

function find_headings :: "nat \<Rightarrow> bool \<Rightarrow> string \<Rightarrow> (string \<times> nat) list" where
  "find_headings pos bol [] = []"
| "find_headings pos bol (c # cs) =
     (case (if bol then heading_at (c # cs) else None) of
        Some (n, t) \<Rightarrow>
          (toLowerCase (trim t), pos + n) # find_headings (pos + n) False (drop n (c # cs))
      | None \<Rightarrow> find_headings (Suc pos) (is_line_terminator c) cs)"
  by pat_completeness auto
termination
proof (relation "measure (\<lambda>(pos, bol, s). length s)")
  show "wf (measure (\<lambda>(pos, bol, s). length s))" by simp
next
  fix pos :: nat and bol c cs x2 n t
  assume "(if bol then heading_at (c # cs) else None) = Some x2" and "(n, t) = x2"
  then have "heading_at (c # cs) = Some (n, t)"
    by (simp split: if_splits)
  then have "0 < n" by (rule heading_at_pos)
  then show "((pos + n, False, drop n (c # cs)), pos, bol, c # cs)
      \<in> measure (\<lambda>(pos, bol, s). length s)"
    by (cases n) simp_all
next
  fix pos :: nat and bol c cs
  show "((Suc pos, is_line_terminator c, cs), pos, bol, c # cs)
      \<in> measure (\<lambda>(pos, bol, s). length s)"
    by simp
qed

text \<open>
  \<open>s.match(/#{1,3}\s+.+$/m)?.[0]?.length\<close>: the expression is not anchored and not global,
  so the match is the first one in \<open>s\<close>, from the leftmost position where one begins.
\<close>

fun first_heading_length :: "string \<Rightarrow> nat option" where
  "first_heading_length [] = None"
| "first_heading_length (c # cs) =
     (case heading_at (c # cs) of
        Some (n, t) \<Rightarrow> Some n
      | None \<Rightarrow> first_heading_length cs)"

text \<open>\<open>s.slice(start, end)\<close>: a negative index counts from the end; both are clamped.\<close>

definition slice :: "string \<Rightarrow> int \<Rightarrow> int \<Rightarrow> string" where
  "slice s start end =
     (let len = int (length s);
          from = (if start < 0 then max (len + start) 0 else min start len);
          to = (if end < 0 then max (len + end) 0 else min end len)
      in take (nat (to - from)) (drop (nat from) s))"

text \<open>
  The second loop of \<open>splitContentSections\<close>, over the headings from \<open>i\<close> on. The end of a
  section is the end of the content for the last heading; for the others it is the index of
  the next heading (the end of its match) less the length of the first heading-like match
  in the content up to there.
\<close>

fun section_loop :: "string \<Rightarrow> (string \<times> nat) list \<Rightarrow> (string \<rightharpoonup> string) \<Rightarrow> (string \<rightharpoonup> string)" where
  "section_loop content [] sections = sections"
| "section_loop content ((name, start) # hs) sections =
     (let end = (case hs of
                   [] \<Rightarrow> int (length content)
                 | (next_name, next_index) # rest \<Rightarrow>
                     int next_index
                       - int (case first_heading_length (take next_index content) of
                                None \<Rightarrow> 0 | Some n \<Rightarrow> n));
          sectionContent = trim (slice content (int start) end)
      in section_loop content hs
           (if sectionContent \<noteq> [] then sections(name \<mapsto> sectionContent) else sections))"

definition splitContentSections :: "string \<Rightarrow> (string \<rightharpoonup> string)" where
  "splitContentSections content = section_loop content (find_headings 0 True content) Map.empty"

section \<open>validators.ts: front matter\<close>

definition and_then :: "'a safeParse \<Rightarrow> ('a \<Rightarrow> 'b safeParse) \<Rightarrow> 'b safeParse" where
  "and_then r f = (case r of Failure \<Rightarrow> Failure | Success x \<Rightarrow> f x)"

text \<open>
  The \<open>release\<close> field: a string or a date, null or undefined. A date gives the part of its
  \<open>toISOString()\<close> before \<open>T\<close>; the placeholder and the empty string give null.
\<close>

fun releaseSchema :: "jsval \<Rightarrow> string option safeParse" where
  "releaseSchema JUndefined = Success None"
| "releaseSchema JNull = Success None"
| "releaseSchema (JStr s) =
     Success (if s = [] then None
              else if trim s = ''YYYY-MM-DD'' \<or> trim s = [] then None else Some (trim s))"
| "releaseSchema (JDate isoString) =
     Success (Some (case split_on CHR ''T'' isoString of [] \<Rightarrow> [] | d # rest \<Rightarrow> d))"
| "releaseSchema _ = Failure"

record GameFrontmatter =
  fm_status :: "string option"
  fm_game_genre :: "string list"
  fm_game_modes :: "string list"
  fm_game_genre_tags :: "string list"
  fm_player_perspective :: "string list"
  fm_platform :: "string option"
  fm_engine :: "string option"
  fm_developer :: "string list"
  fm_publisher :: "string list"
  fm_director :: "string option"
  fm_release :: "string option"

definition gameFrontmatterSchema :: "jsobject \<Rightarrow> GameFrontmatter safeParse" where
  "gameFrontmatterSchema fm =
     (if fm ''class'' \<noteq> JStr ''game'' then Failure
      else and_then (statusSchema (fm ''status'')) (\<lambda>status.
           and_then (optionalStringArray (fm ''game-genre'')) (\<lambda>genre.
           and_then (optionalStringArray (fm ''game-modes'')) (\<lambda>modes.
           and_then (optionalStringArray (fm ''game-genre-tags'')) (\<lambda>tags.
           and_then (optionalStringArray (fm ''player-perspective'')) (\<lambda>perspective.
           and_then (platformSchema (fm ''platform'')) (\<lambda>platform.
           and_then (trimmedTextSchema (fm ''engine'')) (\<lambda>engine.
           and_then (optionalWikiLinkArray (fm ''developer'')) (\<lambda>developer.
           and_then (optionalWikiLinkArray (fm ''publisher'')) (\<lambda>publisher.
           and_then (optionalWikiLink (fm ''director'')) (\<lambda>director.
           and_then (releaseSchema (fm ''release'')) (\<lambda>release.
           Success \<lparr>fm_status = status, fm_game_genre = genre, fm_game_modes = modes,
             fm_game_genre_tags = tags, fm_player_perspective = perspective,
             fm_platform = platform, fm_engine = engine, fm_developer = developer,
             fm_publisher = publisher, fm_director = director,
             fm_release = release\<rparr>))))))))))))"

record StudioFrontmatter =
  sf_director :: "string option"
  sf_games :: "string list"
  sf_studios :: "string list"

definition studioFrontmatterSchema :: "jsobject \<Rightarrow> StudioFrontmatter safeParse" where
  "studioFrontmatterSchema fm =
     (if fm ''class'' \<noteq> JStr ''studio'' then Failure
      else and_then (optionalWikiLink (fm ''director'')) (\<lambda>director.
           and_then (optionalWikiLinkArray (fm ''games'')) (\<lambda>games.
           and_then (optionalWikiLinkArray (fm ''studios'')) (\<lambda>studios.
           Success \<lparr>sf_director = director, sf_games = games, sf_studios = studios\<rparr>))))"

record PublisherFrontmatter =
  pf_games :: "string list"
  pf_studios :: "string list"

definition publisherFrontmatterSchema :: "jsobject \<Rightarrow> PublisherFrontmatter safeParse" where
  "publisherFrontmatterSchema fm =
     (if fm ''class'' \<noteq> JStr ''publisher'' then Failure
      else and_then (optionalWikiLinkArray (fm ''games'')) (\<lambda>games.
           and_then (optionalWikiLinkArray (fm ''studios'')) (\<lambda>studios.
           Success \<lparr>pf_games = games, pf_studios = studios\<rparr>)))"

section \<open>parser.ts: documents\<close>

text \<open>
  A document on disk: its path, and what \<open>fs.readFileSync\<close> followed by \<open>matter(raw)\<close> makes
  of it, the front-matter data and the body, or the text of the exception one of them raises.
\<close>

record document =
  doc_path :: string
  doc_matter :: "string + (jsobject \<times> string)"

record ParsedMarkdown =
  frontmatter :: jsobject
  sections :: "string \<rightharpoonup> string"
  rawContent :: string

definition parseMarkdownFile :: "document \<Rightarrow> string + ParsedMarkdown" where
  "parseMarkdownFile file =
     (case doc_matter file of
        Inl err \<Rightarrow> Inl err
      | Inr (data, content) \<Rightarrow>
          Inr \<lparr>frontmatter = data, sections = splitContentSections content, rawContent = content\<rparr>)"

section \<open>schema.ts: the store\<close>

type_synonym slug = string

text \<open>A \<open>Date\<close> is carried as its \<open>toISOString()\<close>.\<close>

type_synonym date = string

text \<open>
  The rows of the entity tables, without the \<open>slug\<close> column: it is the primary key, and a
  table is a map from it. The publishers and the designers tables have the same columns.
\<close>

record game_row =
  g_status :: "string option"
  g_platform :: "string option"
  g_engine :: "string option"
  g_release :: "string option"
  g_director :: "string option"
  g_gameGenre :: "string list option"
  g_gameModes :: "string list option"
  g_gameGenreTags :: "string list option"
  g_playerPerspective :: "string list option"
  g_gameplayText :: "string option"
  g_synopsisText :: "string option"
  g_reviewText :: "string option"
  g_notesText :: "string option"
  g_sourceFile :: string
  g_lastSyncedAt :: date

record studio_row =
  s_director :: "string option"
  s_overviewText :: "string option"
  s_sourceFile :: string
  s_lastSyncedAt :: date

record overview_row =
  o_overviewText :: "string option"
  o_sourceFile :: string
  o_lastSyncedAt :: date

text \<open>
  A junction table is the list of its rows, each a pair of slugs. Its primary key is the
  pair: an insert of a pair that is in the table raises.
\<close>

type_synonym junction = "(slug \<times> slug) list"

record store =
  games :: "slug \<rightharpoonup> game_row"
  studios :: "slug \<rightharpoonup> studio_row"
  publishers :: "slug \<rightharpoonup> overview_row"
  designers :: "slug \<rightharpoonup> overview_row"
  gameDevelopers :: junction
  gamePublishers :: junction
  publisherStudios :: junction
  relatedStudios :: junction

section \<open>sync-engine.ts\<close>

datatype entityType = Game | Studio | Publisher | Designer

record Change =
  ch_entity :: string
  ch_entityType :: entityType
  ch_field :: string
  ch_oldValue :: "string option"
  ch_newValue :: "string option"

record SyncReport =
  gamesProcessed :: nat
  studiosProcessed :: nat
  publishersProcessed :: nat
  designersProcessed :: nat
  created :: nat
  updated :: nat
  unchanged :: nat
  errors :: "string list"
  changes :: "Change list"

subsection \<open>serialize and detectChanges\<close>

text \<open>The values of a row object: null, a text, a JSON column (a list of strings), a date.\<close>

datatype colval = Null | Text string | Json "string list" | Timestamp date

definition hex_digit :: "nat \<Rightarrow> char" where
  "hex_digit n = (if n < 10 then char_of (48 + n) else char_of (87 + n))"

text \<open>\<open>JSON.stringify\<close> of a list of strings.\<close>

definition json_escape :: "char \<Rightarrow> string" where
  "json_escape c =
     (if c = CHR 0x22 then [CHR 0x5C, CHR 0x22]
      else if c = CHR 0x5C then [CHR 0x5C, CHR 0x5C]
      else if c = CHR 0x08 then [CHR 0x5C, CHR ''b'']
      else if c = CHR 0x09 then [CHR 0x5C, CHR ''t'']
      else if c = CHR 0x0A then [CHR 0x5C, CHR ''n'']
      else if c = CHR 0x0C then [CHR 0x5C, CHR ''f'']
      else if c = CHR 0x0D then [CHR 0x5C, CHR ''r'']
      else if (of_char c :: nat) < 0x20
        then [CHR 0x5C, CHR ''u'', CHR ''0'', CHR ''0'',
              hex_digit ((of_char c :: nat) div 16), hex_digit ((of_char c :: nat) mod 16)]
      else [c])"

definition json_string :: "string \<Rightarrow> string" where
  "json_string s = CHR 0x22 # concat (map json_escape s) @ [CHR 0x22]"

fun join_commas :: "string list \<Rightarrow> string" where
  "join_commas [] = []"
| "join_commas [x] = x"
| "join_commas (x # y # ys) = x @ CHR '','' # join_commas (y # ys)"

definition json_array :: "string list \<Rightarrow> string" where
  "json_array xs = CHR ''['' # join_commas (map json_string xs) @ [CHR '']'']"

text \<open>\<open>serialize(value)\<close>; the value of a property the object does not have is undefined.\<close>

fun serialize :: "colval option \<Rightarrow> string option" where
  "serialize None = None"
| "serialize (Some Null) = None"
| "serialize (Some (Timestamp d)) = Some d"
| "serialize (Some (Json xs)) = Some (json_array xs)"
| "serialize (Some (Text s)) = Some s"

type_synonym row_object = "(string \<times> colval) list"

text \<open>
  \<open>detectChanges\<close>: the changes it pushes onto \<open>report.changes\<close>, one for every key of
  \<open>incoming\<close>, other than the three left out, whose two serialized values differ.
\<close>

definition detectChanges :: "slug \<Rightarrow> entityType \<Rightarrow> row_object \<Rightarrow> row_object \<Rightarrow> Change list" where
  "detectChanges slug ty existing incoming =
     concat (map
       (\<lambda>field.
          let oldVal = serialize (map_of existing field);
              newVal = serialize (map_of incoming field)
          in if oldVal \<noteq> newVal
             then [\<lparr>ch_entity = slug, ch_entityType = ty, ch_field = field,
                    ch_oldValue = oldVal, ch_newValue = newVal\<rparr>]
             else [])
       (filter (\<lambda>k. k \<noteq> ''lastSyncedAt'' \<and> k \<noteq> ''sourceFile'' \<and> k \<noteq> ''slug'')
          (map fst incoming)))"

definition text_col :: "string option \<Rightarrow> colval" where
  "text_col v = (case v of None \<Rightarrow> Null | Some s \<Rightarrow> Text s)"

definition json_col :: "string list option \<Rightarrow> colval" where
  "json_col v = (case v of None \<Rightarrow> Null | Some xs \<Rightarrow> Json xs)"

definition game_object :: "slug \<Rightarrow> game_row \<Rightarrow> row_object" where
  "game_object slug r =
     [(''slug'', Text slug),
      (''status'', text_col (g_status r)),
      (''platform'', text_col (g_platform r)),
      (''engine'', text_col (g_engine r)),
      (''release'', text_col (g_release r)),
      (''director'', text_col (g_director r)),
      (''gameGenre'', json_col (g_gameGenre r)),
      (''gameModes'', json_col (g_gameModes r)),
      (''gameGenreTags'', json_col (g_gameGenreTags r)),
      (''playerPerspective'', json_col (g_playerPerspective r)),
      (''gameplayText'', text_col (g_gameplayText r)),
      (''synopsisText'', text_col (g_synopsisText r)),
      (''reviewText'', text_col (g_reviewText r)),
      (''notesText'', text_col (g_notesText r)),
      (''sourceFile'', Text (g_sourceFile r)),
      (''lastSyncedAt'', Timestamp (g_lastSyncedAt r))]"

definition studio_object :: "slug \<Rightarrow> studio_row \<Rightarrow> row_object" where
  "studio_object slug r =
     [(''slug'', Text slug),
      (''director'', text_col (s_director r)),
      (''overviewText'', text_col (s_overviewText r)),
      (''sourceFile'', Text (s_sourceFile r)),
      (''lastSyncedAt'', Timestamp (s_lastSyncedAt r))]"

definition overview_object :: "slug \<Rightarrow> overview_row \<Rightarrow> row_object" where
  "overview_object slug r =
     [(''slug'', Text slug),
      (''overviewText'', text_col (o_overviewText r)),
      (''sourceFile'', Text (o_sourceFile r)),
      (''lastSyncedAt'', Timestamp (o_lastSyncedAt r))]"

subsection \<open>The state of a run\<close>

text \<open>
  The store, the report, the three sets of referenced slugs (a \<open>Set\<close> keeps the order of
  insertion) and the clock: \<open>clock s 0\<close> is what the next \<open>new Date()\<close> returns.
\<close>

record sync_state =
  db :: store
  report :: SyncReport
  referencedStudios :: "slug list"
  referencedPublishers :: "slug list"
  referencedDesigners :: "slug list"
  clock :: "nat \<Rightarrow> date"

definition new_Date :: "sync_state \<Rightarrow> date \<times> sync_state" where
  "new_Date s = (clock s 0, s\<lparr>clock := (\<lambda>n. clock s (Suc n))\<rparr>)"

definition set_add :: "slug \<Rightarrow> slug list \<Rightarrow> slug list" where
  "set_add x xs = (if x \<in> set xs then xs else xs @ [x])"

definition push_error :: "string \<Rightarrow> sync_state \<Rightarrow> sync_state" where
  "push_error msg s = s\<lparr>report := (report s)\<lparr>errors := errors (report s) @ [msg]\<rparr>\<rparr>"

text \<open>
  The block \<open>if (existing) { detectChanges ...; update or unchanged } else { insert }\<close>, the
  same for the four kinds: whether the incoming row is written, and the report.
\<close>

definition upsert :: "entityType \<Rightarrow> slug \<Rightarrow> row_object option \<Rightarrow> row_object \<Rightarrow> SyncReport
    \<Rightarrow> bool \<times> SyncReport" where
  "upsert ty slug existing incoming rep =
     (case existing of
        Some e \<Rightarrow>
          (let pushed = detectChanges slug ty e incoming in
           if pushed \<noteq> []
           then (True, rep\<lparr>changes := changes rep @ pushed, updated := updated rep + 1\<rparr>)
           else (False, rep\<lparr>unchanged := unchanged rep + 1\<rparr>))
      | None \<Rightarrow> (True, rep\<lparr>created := created rep + 1\<rparr>))"

text \<open>
  A loop of inserts into a junction table: the table it leaves, and whether an insert raised
  (the pair was there), which ends the loop.
\<close>

fun insertJunctions :: "(slug \<times> slug) list \<Rightarrow> junction \<Rightarrow> junction \<times> bool" where
  "insertJunctions [] table = (table, False)"
| "insertJunctions (r # rs) table =
     (if r \<in> set table then (table, True) else insertJunctions rs (table @ [r]))"

text \<open>The same loop when each insert is followed by \<open>referencedStudios.add\<close> of a slug.\<close>

fun insertAndTrack :: "((slug \<times> slug) \<times> slug) list \<Rightarrow> junction \<Rightarrow> slug list
    \<Rightarrow> junction \<times> slug list \<times> bool" where
  "insertAndTrack [] table refs = (table, refs, False)"
| "insertAndTrack ((r, x) # rs) table refs =
     (if r \<in> set table then (table, refs, True)
      else insertAndTrack rs (table @ [r]) (set_add x refs))"

text \<open>
  The reverse direction: the rows of the game are read, and the pair is inserted when
  \<open>find\<close> meets no row with the other slug.
\<close>

definition insertIfAbsent :: "slug \<Rightarrow> slug \<Rightarrow> junction \<Rightarrow> junction" where
  "insertIfAbsent gameSlug other table =
     (case List.find (\<lambda>r. snd r = other) (filter (\<lambda>r. fst r = gameSlug) table) of
        Some existingJunction \<Rightarrow> table
      | None \<Rightarrow> table @ [(gameSlug, other)])"

definition unique_failed :: "string \<Rightarrow> string" where
  "unique_failed columns = ''SqliteError: UNIQUE constraint failed: '' @ columns"

subsection \<open>Games\<close>

definition stub_game_row :: "string \<Rightarrow> date \<Rightarrow> game_row" where
  "stub_game_row filePath now =
     \<lparr>g_status = None, g_platform = None, g_engine = None, g_release = None, g_director = None,
      g_gameGenre = None, g_gameModes = None, g_gameGenreTags = None, g_playerPerspective = None,
      g_gameplayText = None, g_synopsisText = None, g_reviewText = None, g_notesText = None,
      g_sourceFile = filePath, g_lastSyncedAt = now\<rparr>"

definition syncStubGame :: "slug \<Rightarrow> string \<Rightarrow> sync_state \<Rightarrow> sync_state" where
  "syncStubGame slug filePath s =
     (let s1 = (case games (db s) slug of
                  Some existing \<Rightarrow> s
                | None \<Rightarrow>
                    (let (now, s') = new_Date s in
                     s'\<lparr>db := (db s')\<lparr>games := (games (db s'))(slug \<mapsto> stub_game_row filePath now)\<rparr>,
                        report := (report s')\<lparr>created := created (report s') + 1\<rparr>\<rparr>))
      in s1\<lparr>report := (report s1)\<lparr>gamesProcessed := gamesProcessed (report s1) + 1\<rparr>\<rparr>)"

definition gameRow :: "GameFrontmatter \<Rightarrow> (string \<rightharpoonup> string) \<Rightarrow> string \<Rightarrow> date \<Rightarrow> game_row" where
  "gameRow fm secs filePath now =
     \<lparr>g_status = fm_status fm, g_platform = fm_platform fm, g_engine = fm_engine fm,
      g_release = fm_release fm, g_director = fm_director fm,
      g_gameGenre = Some (fm_game_genre fm), g_gameModes = Some (fm_game_modes fm),
      g_gameGenreTags = Some (fm_game_genre_tags fm),
      g_playerPerspective = Some (fm_player_perspective fm),
      g_gameplayText = secs ''gameplay'', g_synopsisText = secs ''synopsis'',
      g_reviewText = secs ''review'', g_notesText = secs ''notes'',
      g_sourceFile = filePath, g_lastSyncedAt = now\<rparr>"

text \<open>\<open>if (fm.director) referencedDesigners.add(fm.director)\<close>: the empty string is falsy.\<close>

definition add_director :: "string option \<Rightarrow> slug list \<Rightarrow> slug list" where
  "add_director director refs =
     (case director of None \<Rightarrow> refs | Some d \<Rightarrow> if d = [] then refs else set_add d refs)"

text \<open>Delete the rows of the slug, then insert one row for each target, in order.\<close>

definition replaceJunctions :: "slug \<Rightarrow> slug list \<Rightarrow> junction \<Rightarrow> junction \<times> bool" where
  "replaceJunctions slug targets table =
     insertJunctions (map (Pair slug) targets) (filter (\<lambda>r. fst r \<noteq> slug) table)"

text \<open>
  The first part of a turn for a game file that passed validation: the references are
  recorded, the row is built and inserted, or compared with the one there and written when a
  field differs.
\<close>

definition upsertGame :: "slug \<Rightarrow> string \<Rightarrow> GameFrontmatter \<Rightarrow> (string \<rightharpoonup> string) \<Rightarrow> sync_state
    \<Rightarrow> sync_state" where
  "upsertGame slug filePath fm secs s =
     (let s1 = s\<lparr>referencedStudios := fold set_add (fm_developer fm) (referencedStudios s),
                referencedPublishers := fold set_add (fm_publisher fm) (referencedPublishers s),
                referencedDesigners := add_director (fm_director fm) (referencedDesigners s)\<rparr>;
          existing = games (db s1) slug;
          (now, s2) = new_Date s1;
          row = gameRow fm secs filePath now;
          (write, rep) = upsert Game slug (map_option (game_object slug) existing)
                           (game_object slug row) (report s2)
      in s2\<lparr>report := rep,
            db := (if write then (db s2)\<lparr>games := (games (db s2))(slug \<mapsto> row)\<rparr> else db s2)\<rparr>)"

text \<open>
  The second part: the junction rows of the game are replaced, first the developers, then
  the publishers, and the file is counted. An insert that raises ends the turn in the
  \<open>catch\<close>: what was written before stays written.
\<close>

definition replaceGameJunctions :: "slug \<Rightarrow> string \<Rightarrow> GameFrontmatter \<Rightarrow> sync_state \<Rightarrow> sync_state" where
  "replaceGameJunctions slug filePath fm s =
     (let (devs, threw) = replaceJunctions slug (fm_developer fm) (gameDevelopers (db s));
          s4 = s\<lparr>db := (db s)\<lparr>gameDevelopers := devs\<rparr>\<rparr>
      in if threw
         then push_error (''Error syncing game '' @ filePath @ '': ''
                @ unique_failed ''game_developers.game_slug, game_developers.studio_slug'') s4
         else (let (pubs, threw') = replaceJunctions slug (fm_publisher fm) (gamePublishers (db s4));
                   s5 = s4\<lparr>db := (db s4)\<lparr>gamePublishers := pubs\<rparr>\<rparr>
               in if threw'
                  then push_error (''Error syncing game '' @ filePath @ '': ''
                         @ unique_failed ''game_publishers.game_slug, game_publishers.publisher_slug'') s5
                  else s5\<lparr>report := (report s5)\<lparr>gamesProcessed :=
                         gamesProcessed (report s5) + 1\<rparr>\<rparr>))"

text \<open>One turn of the loop over the game files, its \<open>try\<close> and \<open>catch\<close> included.\<close>

definition syncGame :: "document \<Rightarrow> sync_state \<Rightarrow> sync_state" where
  "syncGame file s =
     (let filePath = doc_path file; slug = slugFromPath filePath in
      case parseMarkdownFile file of
        Inl err \<Rightarrow> push_error (''Error syncing game '' @ filePath @ '': '' @ err) s
      | Inr parsed \<Rightarrow>
          (case gameFrontmatterSchema (frontmatter parsed) of
             Failure \<Rightarrow> syncStubGame slug filePath s
           | Success fm \<Rightarrow>
               replaceGameJunctions slug filePath fm
                 (upsertGame slug filePath fm (sections parsed) s)))"

text \<open>One turn of the loop over the catalog entries.\<close>

definition syncCsvGame :: "ParsedCsvGame \<Rightarrow> sync_state \<Rightarrow> sync_state" where
  "syncCsvGame entry s =
     (case games (db s) (csv_slug entry) of
        Some existing \<Rightarrow> s
      | None \<Rightarrow>
          (let (now, s') = new_Date s;
               row = (stub_game_row ''lib/games.csv'' now)
                       \<lparr>g_status := csv_status (csv_row entry),
                        g_platform := csv_platform (csv_row entry)\<rparr>
           in s'\<lparr>db := (db s')\<lparr>games := (games (db s'))(csv_slug entry \<mapsto> row)\<rparr>,
                 report := (report s')\<lparr>created := created (report s') + 1,
                   gamesProcessed := gamesProcessed (report s') + 1\<rparr>\<rparr>))"

subsection \<open>Studios, publishers, designers\<close>

text \<open>The rows built from a studio file and from a publisher or designer file.\<close>

definition studioRow :: "StudioFrontmatter option \<Rightarrow> (string \<rightharpoonup> string) \<Rightarrow> string \<Rightarrow> date \<Rightarrow> studio_row" where
  "studioRow fm secs filePath now =
     \<lparr>s_director = (case fm of None \<Rightarrow> None | Some d \<Rightarrow> sf_director d),
      s_overviewText = secs ''overview'', s_sourceFile = filePath, s_lastSyncedAt = now\<rparr>"

definition overviewRow :: "(string \<rightharpoonup> string) \<Rightarrow> string \<Rightarrow> date \<Rightarrow> overview_row" where
  "overviewRow secs filePath now =
     \<lparr>o_overviewText = secs ''overview'', o_sourceFile = filePath, o_lastSyncedAt = now\<rparr>"

text \<open>
  The first part of a turn for a studio file: the front matter is kept when it passes
  validation (\<open>fm\<close> is null otherwise), and the row is inserted, or compared and written.
\<close>

definition upsertStudio :: "slug \<Rightarrow> string \<Rightarrow> StudioFrontmatter option \<Rightarrow> (string \<rightharpoonup> string)
    \<Rightarrow> sync_state \<Rightarrow> sync_state" where
  "upsertStudio slug filePath fm secs s =
     (let s1 = (case fm of
                  None \<Rightarrow> s
                | Some d \<Rightarrow> s\<lparr>referencedDesigners :=
                    add_director (sf_director d) (referencedDesigners s)\<rparr>);
          (now, s2) = new_Date s1;
          row = studioRow fm secs filePath now;
          existing = studios (db s2) slug;
          (write, rep) = upsert Studio slug (map_option (studio_object slug) existing)
                           (studio_object slug row) (report s2)
      in s2\<lparr>report := rep,
            db := (if write then (db s2)\<lparr>studios := (studios (db s2))(slug \<mapsto> row)\<rparr> else db s2)\<rparr>)"

text \<open>
  The second part: the games of the studio go into the game-developer table where the pair
  is not there; its related studios, when it names any, replace its rows of that table.
\<close>

definition studioJunctions :: "slug \<Rightarrow> string \<Rightarrow> StudioFrontmatter option \<Rightarrow> sync_state \<Rightarrow> sync_state" where
  "studioJunctions slug filePath fm s =
     (case fm of
        None \<Rightarrow> s\<lparr>report := (report s)\<lparr>studiosProcessed := studiosProcessed (report s) + 1\<rparr>\<rparr>
      | Some d \<Rightarrow>
          (let s4 = s\<lparr>db := (db s)\<lparr>gameDevelopers :=
                      fold (\<lambda>gameSlug. insertIfAbsent gameSlug slug) (sf_games d)
                        (gameDevelopers (db s))\<rparr>\<rparr>
           in if sf_studios d = []
              then s4\<lparr>report := (report s4)\<lparr>studiosProcessed := studiosProcessed (report s4) + 1\<rparr>\<rparr>
              else (let (rel, refs, threw) =
                          insertAndTrack
                            (map (\<lambda>relatedSlug. ((slug, relatedSlug), relatedSlug)) (sf_studios d))
                            (filter (\<lambda>r. fst r \<noteq> slug) (relatedStudios (db s4)))
                            (referencedStudios s4);
                        s5 = s4\<lparr>db := (db s4)\<lparr>relatedStudios := rel\<rparr>, referencedStudios := refs\<rparr>
                    in if threw
                       then push_error (''Error syncing studio '' @ filePath @ '': ''
                              @ unique_failed ''related_studios.studio_slug, related_studios.related_studio_slug'') s5
                       else s5\<lparr>report := (report s5)\<lparr>studiosProcessed :=
                              studiosProcessed (report s5) + 1\<rparr>\<rparr>)))"

text \<open>One turn of the loop over the studio files.\<close>

definition syncStudio :: "document \<Rightarrow> sync_state \<Rightarrow> sync_state" where
  "syncStudio file s =
     (let filePath = doc_path file; slug = slugFromPath filePath in
      case parseMarkdownFile file of
        Inl err \<Rightarrow> push_error (''Error syncing studio '' @ filePath @ '': '' @ err) s
      | Inr parsed \<Rightarrow>
          (let fm = (case studioFrontmatterSchema (frontmatter parsed) of
                       Failure \<Rightarrow> None | Success d \<Rightarrow> Some d)
           in studioJunctions slug filePath fm
                (upsertStudio slug filePath fm (sections parsed) s)))"

text \<open>The same two parts for a publisher file.\<close>

definition upsertPublisher :: "slug \<Rightarrow> string \<Rightarrow> (string \<rightharpoonup> string) \<Rightarrow> sync_state \<Rightarrow> sync_state" where
  "upsertPublisher slug filePath secs s =
     (let (now, s2) = new_Date s;
          row = overviewRow secs filePath now;
          existing = publishers (db s2) slug;
          (write, rep) = upsert Publisher slug (map_option (overview_object slug) existing)
                           (overview_object slug row) (report s2)
      in s2\<lparr>report := rep,
            db := (if write then (db s2)\<lparr>publishers := (publishers (db s2))(slug \<mapsto> row)\<rparr>
                   else db s2)\<rparr>)"

definition publisherJunctions :: "slug \<Rightarrow> string \<Rightarrow> PublisherFrontmatter option \<Rightarrow> sync_state
    \<Rightarrow> sync_state" where
  "publisherJunctions slug filePath fm s =
     (case fm of
        None \<Rightarrow> s\<lparr>report := (report s)\<lparr>publishersProcessed := publishersProcessed (report s) + 1\<rparr>\<rparr>
      | Some d \<Rightarrow>
          (let s4 = s\<lparr>db := (db s)\<lparr>gamePublishers :=
                      fold (\<lambda>gameSlug. insertIfAbsent gameSlug slug) (pf_games d)
                        (gamePublishers (db s))\<rparr>\<rparr>
           in if pf_studios d = []
              then s4\<lparr>report := (report s4)\<lparr>publishersProcessed :=
                     publishersProcessed (report s4) + 1\<rparr>\<rparr>
              else (let (rel, refs, threw) =
                          insertAndTrack
                            (map (\<lambda>studioSlug. ((slug, studioSlug), studioSlug)) (pf_studios d))
                            (filter (\<lambda>r. fst r \<noteq> slug) (publisherStudios (db s4)))
                            (referencedStudios s4);
                        s5 = s4\<lparr>db := (db s4)\<lparr>publisherStudios := rel\<rparr>, referencedStudios := refs\<rparr>
                    in if threw
                       then push_error (''Error syncing publisher '' @ filePath @ '': ''
                              @ unique_failed ''publisher_studios.publisher_slug, publisher_studios.studio_slug'') s5
                       else s5\<lparr>report := (report s5)\<lparr>publishersProcessed :=
                              publishersProcessed (report s5) + 1\<rparr>\<rparr>)))"

definition syncPublisher :: "document \<Rightarrow> sync_state \<Rightarrow> sync_state" where
  "syncPublisher file s =
     (let filePath = doc_path file; slug = slugFromPath filePath in
      case parseMarkdownFile file of
        Inl err \<Rightarrow> push_error (''Error syncing publisher '' @ filePath @ '': '' @ err) s
      | Inr parsed \<Rightarrow>
          (let fm = (case publisherFrontmatterSchema (frontmatter parsed) of
                       Failure \<Rightarrow> None | Success d \<Rightarrow> Some d)
           in publisherJunctions slug filePath fm
                (upsertPublisher slug filePath (sections parsed) s)))"

text \<open>One turn of the loop over the designer files; the front matter is not read.\<close>

definition upsertDesigner :: "slug \<Rightarrow> string \<Rightarrow> (string \<rightharpoonup> string) \<Rightarrow> sync_state \<Rightarrow> sync_state" where
  "upsertDesigner slug filePath secs s =
     (let (now, s2) = new_Date s;
          row = overviewRow secs filePath now;
          existing = designers (db s2) slug;
          (write, rep) = upsert Designer slug (map_option (overview_object slug) existing)
                           (overview_object slug row) (report s2)
      in s2\<lparr>report := rep,
            db := (if write then (db s2)\<lparr>designers := (designers (db s2))(slug \<mapsto> row)\<rparr>
                   else db s2)\<rparr>)"

definition syncDesigner :: "document \<Rightarrow> sync_state \<Rightarrow> sync_state" where
  "syncDesigner file s =
     (let filePath = doc_path file; slug = slugFromPath filePath in
      case parseMarkdownFile file of
        Inl err \<Rightarrow> push_error (''Error syncing designer '' @ filePath @ '': '' @ err) s
      | Inr parsed \<Rightarrow>
          (let s3 = upsertDesigner slug filePath (sections parsed) s
           in s3\<lparr>report := (report s3)\<lparr>designersProcessed := designersProcessed (report s3) + 1\<rparr>\<rparr>))"

subsection \<open>Stub rows\<close>

definition stubStudio :: "slug \<Rightarrow> sync_state \<Rightarrow> sync_state" where
  "stubStudio studioSlug s =
     (case studios (db s) studioSlug of
        Some exists \<Rightarrow> s
      | None \<Rightarrow>
          (let (now, s') = new_Date s in
           s'\<lparr>db := (db s')\<lparr>studios := (studios (db s'))(studioSlug \<mapsto>
             \<lparr>s_director = None, s_overviewText = None, s_sourceFile = ''(referenced)'',
              s_lastSyncedAt = now\<rparr>)\<rparr>\<rparr>))"

definition stubPublisher :: "slug \<Rightarrow> sync_state \<Rightarrow> sync_state" where
  "stubPublisher pubSlug s =
     (case publishers (db s) pubSlug of
        Some exists \<Rightarrow> s
      | None \<Rightarrow>
          (let (now, s') = new_Date s in
           s'\<lparr>db := (db s')\<lparr>publishers := (publishers (db s'))(pubSlug \<mapsto>
             \<lparr>o_overviewText = None, o_sourceFile = ''(referenced)'', o_lastSyncedAt = now\<rparr>)\<rparr>\<rparr>))"

definition stubDesigner :: "slug \<Rightarrow> sync_state \<Rightarrow> sync_state" where
  "stubDesigner designerSlug s =
     (case designers (db s) designerSlug of
        Some exists \<Rightarrow> s
      | None \<Rightarrow>
          (let (now, s') = new_Date s in
           s'\<lparr>db := (db s')\<lparr>designers := (designers (db s'))(designerSlug \<mapsto>
             \<lparr>o_overviewText = None, o_sourceFile = ''(referenced)'', o_lastSyncedAt = now\<rparr>)\<rparr>\<rparr>))"

definition createStubs :: "sync_state \<Rightarrow> sync_state" where
  "createStubs s =
     (let s1 = fold stubStudio (referencedStudios s) s;
          s2 = fold stubPublisher (referencedPublishers s1) s1
      in fold stubDesigner (referencedDesigners s2) s2)"

subsection \<open>syncAll\<close>

text \<open>
  What a run reads: the files of the four directories, in the order \<open>globSync\<close> lists them,
  and the text of \<open>lib/games.csv\<close> when it can be read.
\<close>

record corpus =
  gameFiles :: "document list"
  studioFiles :: "document list"
  publisherFiles :: "document list"
  designerFiles :: "document list"
  gamesCsv :: "string option"

definition empty_report :: SyncReport where
  "empty_report =
     \<lparr>gamesProcessed = 0, studiosProcessed = 0, publishersProcessed = 0, designersProcessed = 0,
      created = 0, updated = 0, unchanged = 0, errors = [], changes = []\<rparr>"

text \<open>
  The function given to \<open>sqlite.transaction\<close>. Every exception in it is caught inside a loop,
  and the inserts outside the \<open>try\<close> blocks are guarded by a lookup: it does not raise, and
  the transaction commits.
\<close>

definition transact :: "corpus \<Rightarrow> ParsedCsvGame list \<Rightarrow> sync_state \<Rightarrow> sync_state" where
  "transact c csvGames s =
     createStubs
       (fold syncDesigner (designerFiles c)
         (fold syncPublisher (publisherFiles c)
           (fold syncStudio (studioFiles c)
             (fold syncCsvGame csvGames
               (fold syncGame (gameFiles c) s)))))"

definition initial_state :: "(nat \<Rightarrow> date) \<Rightarrow> store \<Rightarrow> sync_state" where
  "initial_state clk st =
     \<lparr>db = st, report = empty_report, referencedStudios = [], referencedPublishers = [],
      referencedDesigners = [], clock = clk\<rparr>"

text \<open>
  \<open>syncAll\<close>, given the corpus, the clock and the store behind \<open>databaseUrl\<close>: the state at the
  end, of which the store is what is committed and the report what is returned.
\<close>

definition syncAll :: "corpus \<Rightarrow> (nat \<Rightarrow> date) \<Rightarrow> store \<Rightarrow> sync_state" where
  "syncAll c clk st =
     (case parseCsvFile (gamesCsv c) of
        Inl err \<Rightarrow> transact c [] (push_error ''CSV parse error: Error: ENOENT'' (initial_state clk st))
      | Inr (csvGames, warnings) \<Rightarrow> transact c csvGames (initial_state clk st))"

definition empty_store :: store where
  "empty_store =
     \<lparr>games = Map.empty, studios = Map.empty, publishers = Map.empty, designers = Map.empty,
      gameDevelopers = [], gamePublishers = [], publisherStudios = [], relatedStudios = []\<rparr>"

subsection \<open>Notions for the statements\<close>

text \<open>Whether the turn for a file writes its row: the first component of \<open>upsert\<close>.\<close>

definition game_writes :: "slug \<Rightarrow> string \<Rightarrow> GameFrontmatter \<Rightarrow> (string \<rightharpoonup> string) \<Rightarrow> sync_state \<Rightarrow> bool" where
  "game_writes slug filePath fm secs s =
     fst (upsert Game slug (map_option (game_object slug) (games (db s) slug))
       (game_object slug (gameRow fm secs filePath (clock s 0))) (report s))"

definition studio_writes :: "slug \<Rightarrow> string \<Rightarrow> StudioFrontmatter option \<Rightarrow> (string \<rightharpoonup> string) \<Rightarrow> sync_state \<Rightarrow> bool" where
  "studio_writes slug filePath fm secs s =
     fst (upsert Studio slug (map_option (studio_object slug) (studios (db s) slug))
       (studio_object slug (studioRow fm secs filePath (clock s 0))) (report s))"

definition publisher_writes :: "slug \<Rightarrow> string \<Rightarrow> (string \<rightharpoonup> string) \<Rightarrow> sync_state \<Rightarrow> bool" where
  "publisher_writes slug filePath secs s =
     fst (upsert Publisher slug (map_option (overview_object slug) (publishers (db s) slug))
       (overview_object slug (overviewRow secs filePath (clock s 0))) (report s))"

definition designer_writes :: "slug \<Rightarrow> string \<Rightarrow> (string \<rightharpoonup> string) \<Rightarrow> sync_state \<Rightarrow> bool" where
  "designer_writes slug filePath secs s =
     fst (upsert Designer slug (map_option (overview_object slug) (designers (db s) slug))
       (overview_object slug (overviewRow secs filePath (clock s 0))) (report s))"

text \<open>
  The comparison of the claim: every field of the incoming row other than \<open>sourceFile\<close>,
  \<open>lastSyncedAt\<close> and \<open>slug\<close> has the same serialized value in the stored row.
\<close>

definition same_comparable :: "row_object \<Rightarrow> row_object \<Rightarrow> bool" where
  "same_comparable existing incoming =
     (\<forall>k \<in> fst ` set incoming.
        k \<noteq> ''lastSyncedAt'' \<and> k \<noteq> ''sourceFile'' \<and> k \<noteq> ''slug''
          \<longrightarrow> serialize (map_of existing k) = serialize (map_of incoming k))"

section \<open>Status normalization\<close>

lemma startsWith_prefix: "startsWith s p = prefix p s"
  by (induction s p rule: startsWith.induct) auto

text \<open>
  C4. For every input string, with \<open>n\<close> its trimmed, lower-cased form: the status is
  \<open>finished\<close>, \<open>started\<close> or \<open>bought\<close> when \<open>n\<close> is that word, \<open>not started\<close> when \<open>n\<close> begins with
  \<open>not start\<close>, \<open>started\<close> when \<open>n\<close> is \<open>not finished\<close>, and absent for anything else, the empty
  string included; \<open>Finished\<close>, \<open> started \<close>, \<open>not startedv\<close> and \<open>not finished\<close> give \<open>finished\<close>,
  \<open>started\<close>, \<open>not started\<close> and \<open>started\<close>.
\<close>

theorem statusSchema_normalizes:
  "statusSchema (JStr s) = Success
     (if toLowerCase (trim s) = ''finished'' then Some ''finished''
      else if toLowerCase (trim s) = ''started'' then Some ''started''
      else if toLowerCase (trim s) = ''bought'' then Some ''bought''
      else if prefix ''not start'' (toLowerCase (trim s)) then Some ''not started''
      else if toLowerCase (trim s) = ''not finished'' then Some ''started''
      else None)
   \<and> statusSchema (JStr '''') = Success None
   \<and> statusSchema (JStr ''Finished'') = Success (Some ''finished'')
   \<and> statusSchema (JStr '' started '') = Success (Some ''started'')
   \<and> statusSchema (JStr ''not startedv'') = Success (Some ''not started'')
   \<and> statusSchema (JStr ''not finished'') = Success (Some ''started'')"
proof -
  have empty: "toLowerCase (trim []) = []"
    by (simp add: toLowerCase_def trim_def)
  have general: "statusSchema (JStr s) = Success
     (if toLowerCase (trim s) = ''finished'' then Some ''finished''
      else if toLowerCase (trim s) = ''started'' then Some ''started''
      else if toLowerCase (trim s) = ''bought'' then Some ''bought''
      else if prefix ''not start'' (toLowerCase (trim s)) then Some ''not started''
      else if toLowerCase (trim s) = ''not finished'' then Some ''started''
      else None)"
    by (cases "s = []")
      (simp_all add: statusSchema_def normalizeStatus_def Let_def startsWith_prefix empty)
  have e0: "statusSchema (JStr '''') = Success None"
    by (simp add: statusSchema_def normalizeStatus_def)
  have e1: "statusSchema (JStr ''Finished'') = Success (Some ''finished'')"
    by code_simp
  have e2: "statusSchema (JStr '' started '') = Success (Some ''started'')"
    by code_simp
  have e3: "statusSchema (JStr ''not startedv'') = Success (Some ''not started'')"
    by code_simp
  have e4: "statusSchema (JStr ''not finished'') = Success (Some ''started'')"
    by code_simp
  from general e0 e1 e2 e3 e4 show ?thesis by blast
qed

section \<open>The catalog parser\<close>

lemma trim_no_leading: "trim s = [] \<or> \<not> is_space (hd (trim s))"
proof -
  define a where "a = dropWhile is_space s"
  define b where "b = dropWhile is_space (rev a)"
  have a: "a = [] \<or> \<not> is_space (hd a)"
    unfolding a_def by (metis hd_dropWhile)
  have "rev a = takeWhile is_space (rev a) @ b"
    unfolding b_def by simp
  then have "a = rev b @ rev (takeWhile is_space (rev a))"
    by (metis rev_append rev_rev_ident)
  then have "rev b = [] \<or> hd (rev b) = hd a"
    by (metis hd_append2)
  moreover have "rev b \<noteq> [] \<Longrightarrow> a \<noteq> []"
    unfolding b_def by auto
  ultimately show ?thesis
    using a unfolding trim_def a_def[symmetric] b_def[symmetric] by auto
qed

lemma trim_trim: "trim (trim s) = trim s"
proof -
  have "dropWhile is_space (trim s) = trim s"
    using trim_no_leading[of s] by (cases "trim s") auto
  then show ?thesis
    unfolding trim_def by (simp add: dropWhile_idem)
qed

lemma fold_record_strings:
  assumes "\<And>k. r k = JUndefined \<or> (\<exists>s. r k = JStr s)"
  shows "fold (\<lambda>j record. record(f j := JStr (g j))) js r k = JUndefined
       \<or> (\<exists>s. fold (\<lambda>j record. record(f j := JStr (g j))) js r k = JStr s)"
  using assms by (induction js arbitrary: r) auto

lemma csv_record_strings:
  "csv_record header values k = JUndefined \<or> (\<exists>s. csv_record header values k = JStr s)"
  unfolding csv_record_def by (rule fold_record_strings) simp

lemma optionalNullableString_strings:
  "v = JUndefined \<or> (\<exists>s. v = JStr s) \<Longrightarrow> \<exists>x. optionalNullableString v = Success x"
  by auto

lemma csvRowSchema_strings:
  assumes "\<And>k. r k = JUndefined \<or> (\<exists>s. r k = JStr s)" and "r ''name'' = JStr n"
  shows "\<exists>d. csvRowSchema r = Success d \<and> csv_name d = trim n"
proof -
  obtain a where a: "optionalNullableString (r ''status'') = Success a"
    using assms(1) optionalNullableString_strings by blast
  obtain b where b: "optionalNullableString (r ''platform'') = Success b"
    using assms(1) optionalNullableString_strings by blast
  obtain c where c: "optionalNullableString (r ''notes'') = Success c"
    using assms(1) optionalNullableString_strings by blast
  show ?thesis
    by (simp add: csvRowSchema_def assms(2) statusSchema_def platformSchema_def
        trimmedTextSchema_def a b c)
qed

lemma fold_record_trimmed:
  "(\<forall>s. r k = JStr s \<longrightarrow> trim s = s) \<Longrightarrow>
   (\<forall>s. fold (\<lambda>j record. record(f j := JStr (trim (g j)))) js r k = JStr s \<longrightarrow> trim s = s)"
proof (induction js arbitrary: r)
  case Nil
  then show ?case by simp
next
  case (Cons j js)
  show ?case
    unfolding fold_simps
    by (rule Cons.IH) (use Cons.prems in \<open>simp add: trim_trim\<close>)
qed

lemma csv_record_trimmed: "csv_record header values k = JStr s \<Longrightarrow> trim s = s"
proof -
  assume a: "csv_record header values k = JStr s"
  have "\<forall>s. fold (\<lambda>j record. record(header ! j :=
            JStr (trim (if j < length values then values ! j else []))))
          [0..<length header] (\<lambda>k. JUndefined) k = JStr s \<longrightarrow> trim s = s"
    by (rule fold_record_trimmed) simp
  with a show ?thesis
    unfolding csv_record_def by blast
qed

lemma csv_loop_names:
  "snd (csv_loop header i ls) = []
   \<and> map (\<lambda>e. csv_name (csv_row e)) (fst (csv_loop header i ls)) = List.map_filter (name_of_line header) ls
   \<and> map csv_slug (fst (csv_loop header i ls)) = map toSlug (List.map_filter (name_of_line header) ls)"
proof (induction ls arbitrary: i)
  case Nil
  show ?case by (simp add: map_filter_simps)
next
  case (Cons l ls)
  define r where "r = csv_record header (splitCsvLine (strip_trailing_comma l))"
  obtain rs ws where loop: "csv_loop header (Suc i) ls = (rs, ws)"
    by (cases "csv_loop header (Suc i) ls")
  from Cons[of "Suc i"] loop have ih: "ws = []"
      "map (\<lambda>e. csv_name (csv_row e)) rs = List.map_filter (name_of_line header) ls"
      "map csv_slug rs = map toSlug (List.map_filter (name_of_line header) ls)"
    by simp_all
  have strings: "\<And>k. r k = JUndefined \<or> (\<exists>s. r k = JStr s)"
    unfolding r_def by (rule csv_record_strings)
  show ?case
  proof (cases "\<exists>n. r ''name'' = JStr n \<and> n \<noteq> []")
    case True
    then obtain n where n: "r ''name'' = JStr n" "n \<noteq> []" by blast
    obtain d where d: "csvRowSchema r = Success d" "csv_name d = trim n"
      using csvRowSchema_strings[of r n] strings n(1) by blast
    have tn: "trim n = n"
      using n(1) unfolding r_def by (rule csv_record_trimmed)
    have nl: "name_of_line header l = Some n"
      using n by (simp add: name_of_line_def r_def[symmetric])
    show ?thesis
      using n d tn nl ih loop
      by (simp add: r_def[symmetric] map_filter_simps)
  next
    case False
    then have skip: "\<not> truthy (r ''name'') \<or> r ''name'' = JStr []"
      using strings[of "''name''"] by auto
    have nl: "name_of_line header l = None"
      using False strings[of "''name''"] by (auto simp: name_of_line_def r_def[symmetric])
    show ?thesis
      using skip nl ih loop
      by (simp add: r_def[symmetric] map_filter_simps)
  qed
qed

lemma map_filter_nonempty_names: "n \<in> set (List.map_filter (name_of_line header) ls) \<Longrightarrow> n \<noteq> []"
  by (auto simp: map_filter_def name_of_line_def split: jsval.splits if_splits)

text \<open>
  C8 (as amended). \<open>parseCsvFile\<close> raises on no text, whatever its lines; every entry of its
  result has a name that is not empty, and the entries are, in order, the data lines whose
  \<open>name\<close> is neither blank nor missing. A line with fewer columns than the header has its
  missing cells read as empty strings: it is left out only when that leaves its name empty.
\<close>

theorem parseCsvFile_total_drops_unnamed:
  "\<exists>results warnings.
     parseCsvFile (Some raw) = Inr (results, warnings)
     \<and> (\<forall>e \<in> set results. csv_name (csv_row e) \<noteq> [])
     \<and> (case csv_lines raw of
          [] \<Rightarrow> results = []
        | first # rest \<Rightarrow>
            map (\<lambda>e. csv_name (csv_row e)) results = List.map_filter (name_of_line (csv_header first)) rest)"
proof (cases "csv_lines raw")
  case Nil
  then show ?thesis by (simp add: parseCsvFile_def)
next
  case (Cons first rest)
  obtain rs ws where loop: "csv_loop (csv_header first) 1 rest = (rs, ws)"
    by (cases "csv_loop (csv_header first) 1 rest")
  have names: "map (\<lambda>e. csv_name (csv_row e)) rs = List.map_filter (name_of_line (csv_header first)) rest"
    using csv_loop_names[of "csv_header first" 1 rest] loop by simp
  have "\<forall>e \<in> set rs. csv_name (csv_row e) \<noteq> []"
  proof
    fix e assume "e \<in> set rs"
    then have "csv_name (csv_row e) \<in> set (map (\<lambda>e. csv_name (csv_row e)) rs)" by simp
    then show "csv_name (csv_row e) \<noteq> []"
      unfolding names by (rule map_filter_nonempty_names)
  qed
  then show ?thesis
    using Cons loop names by (simp add: parseCsvFile_def)
qed

theorem parseCsvFile_total_drops_unnamed_witness:
  "\<exists>results warnings.
     parseCsvFile (Some ''name,status\<newline>Doom,finished\<newline> ,started'') = Inr (results, warnings)
     \<and> map (\<lambda>e. csv_name (csv_row e)) results = [''Doom'']"
proof -
  have lines: "csv_lines ''name,status\<newline>Doom,finished\<newline> ,started'' = [''name,status'', ''Doom,finished'', '' ,started'']"
    by code_simp
  have names: "List.map_filter (name_of_line (csv_header ''name,status'')) [''Doom,finished'', '' ,started''] = [''Doom'']"
    by code_simp
  from parseCsvFile_total_drops_unnamed[of "''name,status\<newline>Doom,finished\<newline> ,started''"]
  obtain results warnings where
    p: "parseCsvFile (Some ''name,status\<newline>Doom,finished\<newline> ,started'') = Inr (results, warnings)"
    and c: "case csv_lines ''name,status\<newline>Doom,finished\<newline> ,started'' of
          [] \<Rightarrow> results = []
        | first # rest \<Rightarrow>
            map (\<lambda>e. csv_name (csv_row e)) results = List.map_filter (name_of_line (csv_header first)) rest"
    by blast
  from c have n: "map (\<lambda>e. csv_name (csv_row e)) results = [''Doom'']"
    unfolding lines by (simp only: list.case names)
  show ?thesis
    by (intro exI conjI) (rule p, rule n)
qed

text \<open>
  A line of two columns under a header of four is kept: the claim as stated, that every line
  with fewer columns than the header is left out, fails.
\<close>

theorem parseCsvFile_short_line_counterexample:
  "length (splitCsvLine (strip_trailing_comma ''Doom,finished'')) = 2
   \<and> length (csv_header ''name,status,platform,notes'') = 4
   \<and> parseCsvFile (Some ''name,status,platform,notes\<newline>Doom,finished'') =
       Inr ([\<lparr>csv_slug = ''Doom'',
               csv_row = \<lparr>csv_name = ''Doom'', csv_status = Some ''finished'',
                 csv_platform = None, csv_notes = None\<rparr>\<rparr>], [])"
  by code_simp

text \<open>
  C10. Every data line whose name is not empty has an entry in the result, and no line is
  skipped with a diagnostic: \<open>csvRowSchema\<close> does not fail on a record whose properties are
  strings (or missing) and whose \<open>name\<close> is a string, whatever its status, platform and notes.
\<close>

theorem parseCsvFile_keeps_named_lines:
  "(csv_lines raw = first # rest \<longrightarrow>
      (\<exists>results.
         parseCsvFile (Some raw) = Inr (results, [])
         \<and> map csv_slug results = map toSlug (List.map_filter (name_of_line (csv_header first)) rest)
         \<and> length results = length (filter (\<lambda>l. name_of_line (csv_header first) l \<noteq> None) rest)))
   \<and> ((\<forall>k. r k = JUndefined \<or> (\<exists>s. r k = JStr s)) \<and> (\<exists>n. r ''name'' = JStr n)
        \<longrightarrow> csvRowSchema r \<noteq> Failure)"
proof (intro conjI impI)
  assume lines: "csv_lines raw = first # rest"
  obtain rs ws where loop: "csv_loop (csv_header first) 1 rest = (rs, ws)"
    by (cases "csv_loop (csv_header first) 1 rest")
  from csv_loop_names[of "csv_header first" 1 rest] loop
  have ws: "ws = []"
    and slugs: "map csv_slug rs = map toSlug (List.map_filter (name_of_line (csv_header first)) rest)"
    by simp_all
  have "length rs = length (map csv_slug rs)" by simp
  also have "\<dots> = length (filter (\<lambda>l. name_of_line (csv_header first) l \<noteq> None) rest)"
    unfolding slugs by (simp add: map_filter_def)
  finally have len: "length rs = length (filter (\<lambda>l. name_of_line (csv_header first) l \<noteq> None) rest)" .
  have "parseCsvFile (Some raw) = Inr (rs, [])"
    using lines loop ws by (simp add: parseCsvFile_def)
  with slugs len
  show "\<exists>results.
         parseCsvFile (Some raw) = Inr (results, [])
         \<and> map csv_slug results = map toSlug (List.map_filter (name_of_line (csv_header first)) rest)
         \<and> length results = length (filter (\<lambda>l. name_of_line (csv_header first) l \<noteq> None) rest)"
    by (intro exI[of _ rs] conjI)
next
  assume a: "(\<forall>k. r k = JUndefined \<or> (\<exists>s. r k = JStr s)) \<and> (\<exists>n. r ''name'' = JStr n)"
  then obtain n where n: "r ''name'' = JStr n" by blast
  from a have "\<And>k. r k = JUndefined \<or> (\<exists>s. r k = JStr s)" by blast
  from csvRowSchema_strings[of r n, OF this n]
  show "csvRowSchema r \<noteq> Failure" by auto
qed

theorem parseCsvFile_keeps_named_lines_witness:
  "csv_lines ''name,status,platform\<newline>Doom,later,Xbok 360\<newline>Quake'' =
      [''name,status,platform'', ''Doom,later,Xbok 360'', ''Quake'']
   \<and> (\<exists>results.
         parseCsvFile (Some ''name,status,platform\<newline>Doom,later,Xbok 360\<newline>Quake'') = Inr (results, [])
         \<and> map csv_slug results = [''Doom'', ''Quake''])
   \<and> csvRowSchema ((\<lambda>k. JUndefined)(''name'' := JStr ''Doom'', ''status'' := JStr ''later''))
        \<noteq> Failure"
proof -
  let ?raw = "''name,status,platform\<newline>Doom,later,Xbok 360\<newline>Quake''"
  let ?r = "(\<lambda>k. JUndefined)(''name'' := JStr ''Doom'', ''status'' := JStr ''later'')"
  have lines: "csv_lines ?raw = [''name,status,platform'', ''Doom,later,Xbok 360'', ''Quake'']"
    by code_simp
  have names: "map toSlug (List.map_filter (name_of_line (csv_header ''name,status,platform''))
      [''Doom,later,Xbok 360'', ''Quake'']) = [''Doom'', ''Quake'']"
    by code_simp
  have strings: "(\<forall>k. ?r k = JUndefined \<or> (\<exists>s. ?r k = JStr s)) \<and> (\<exists>n. ?r ''name'' = JStr n)"
    by simp
  note inst = parseCsvFile_keeps_named_lines[of ?raw "''name,status,platform''"
      "[''Doom,later,Xbok 360'', ''Quake'']" ?r]
  from inst lines obtain results where
    p: "parseCsvFile (Some ?raw) = Inr (results, [])"
    and s: "map csv_slug results = map toSlug (List.map_filter
      (name_of_line (csv_header ''name,status,platform'')) [''Doom,later,Xbok 360'', ''Quake''])"
    by blast
  from inst strings have ok: "csvRowSchema ?r \<noteq> Failure"
    by blast
  show ?thesis
    by (intro conjI exI) (rule lines, rule p, rule s[unfolded names], rule ok)
qed

section \<open>Document sections\<close>

text \<open>
  C3. The end of a section is not where the next heading starts: the code takes the end of
  the next heading's match less the length of the first heading-like match of the document,
  which is the next heading's own length only when the two are as long. After \<open># Synopsis\<close>
  (ten characters), the heading \<open># Review\<close> (eight) costs the section \<open>synopsis\<close> its last two
  characters; after \<open># A\<close>, the section \<open>a\<close> runs five characters into the heading \<open># Longer\<close>.
\<close>

theorem splitContentSections_first_heading_length:
  "find_headings 0 True ''# Synopsis\<newline>story\<newline># Review\<newline>good'' = [(''synopsis'', 10), (''review'', 25)]
   \<and> splitContentSections ''# Synopsis\<newline>story\<newline># Review\<newline>good'' ''synopsis'' = Some ''stor''
   \<and> splitContentSections ''# Synopsis\<newline>story\<newline># Review\<newline>good'' ''review'' = Some ''good''
   \<and> splitContentSections ''# A\<newline>foo\<newline># Longer\<newline>bar'' ''a'' = Some ''foo\<newline># Lon''"
  by code_simp

section \<open>Projections of the steps\<close>

lemma detectChanges_Nil_iff:
  "detectChanges slug ty existing incoming = [] \<longleftrightarrow>
     (\<forall>k \<in> fst ` set incoming.
        k \<noteq> ''lastSyncedAt'' \<and> k \<noteq> ''sourceFile'' \<and> k \<noteq> ''slug''
          \<longrightarrow> serialize (map_of existing k) = serialize (map_of incoming k))"
  by (auto simp: detectChanges_def Let_def)

lemma upsertGame_games:
  "games (db (upsertGame slug fp fm secs s)) =
     (if game_writes slug fp fm secs s
      then (games (db s))(slug \<mapsto> gameRow fm secs fp (clock s 0)) else games (db s))"
  by (simp add: upsertGame_def game_writes_def Let_def new_Date_def split_def)

lemma upsertGame_other_tables:
  "studios (db (upsertGame slug fp fm secs s)) = studios (db s)"
  "publishers (db (upsertGame slug fp fm secs s)) = publishers (db s)"
  "designers (db (upsertGame slug fp fm secs s)) = designers (db s)"
  "gameDevelopers (db (upsertGame slug fp fm secs s)) = gameDevelopers (db s)"
  "gamePublishers (db (upsertGame slug fp fm secs s)) = gamePublishers (db s)"
  "publisherStudios (db (upsertGame slug fp fm secs s)) = publisherStudios (db s)"
  "relatedStudios (db (upsertGame slug fp fm secs s)) = relatedStudios (db s)"
  by (simp_all add: upsertGame_def Let_def new_Date_def split_def)

lemma upsertGame_report:
  "report (upsertGame slug fp fm secs s) =
     snd (upsert Game slug (map_option (game_object slug) (games (db s) slug))
       (game_object slug (gameRow fm secs fp (clock s 0))) (report s))"
  by (simp add: upsertGame_def Let_def new_Date_def split_def)

lemma upsertGame_refs:
  "referencedStudios (upsertGame slug fp fm secs s) = fold set_add (fm_developer fm) (referencedStudios s)"
  "referencedPublishers (upsertGame slug fp fm secs s) = fold set_add (fm_publisher fm) (referencedPublishers s)"
  "referencedDesigners (upsertGame slug fp fm secs s) = add_director (fm_director fm) (referencedDesigners s)"
  by (simp_all add: upsertGame_def Let_def new_Date_def split_def)

lemma replaceGameJunctions_entities:
  "games (db (replaceGameJunctions slug fp fm s)) = games (db s)"
  "studios (db (replaceGameJunctions slug fp fm s)) = studios (db s)"
  "publishers (db (replaceGameJunctions slug fp fm s)) = publishers (db s)"
  "designers (db (replaceGameJunctions slug fp fm s)) = designers (db s)"
  "publisherStudios (db (replaceGameJunctions slug fp fm s)) = publisherStudios (db s)"
  "relatedStudios (db (replaceGameJunctions slug fp fm s)) = relatedStudios (db s)"
  "referencedStudios (replaceGameJunctions slug fp fm s) = referencedStudios s"
  "referencedPublishers (replaceGameJunctions slug fp fm s) = referencedPublishers s"
  "referencedDesigners (replaceGameJunctions slug fp fm s) = referencedDesigners s"
  "created (report (replaceGameJunctions slug fp fm s)) = created (report s)"
  "updated (report (replaceGameJunctions slug fp fm s)) = updated (report s)"
  "unchanged (report (replaceGameJunctions slug fp fm s)) = unchanged (report s)"
  "changes (report (replaceGameJunctions slug fp fm s)) = changes (report s)"
  by (simp_all add: replaceGameJunctions_def Let_def split_def push_error_def)


lemma studioJunctions_entities:
  "games (db (studioJunctions slug fp fm s)) = games (db s)"
  "studios (db (studioJunctions slug fp fm s)) = studios (db s)"
  "publishers (db (studioJunctions slug fp fm s)) = publishers (db s)"
  "designers (db (studioJunctions slug fp fm s)) = designers (db s)"
  "gamePublishers (db (studioJunctions slug fp fm s)) = gamePublishers (db s)"
  "publisherStudios (db (studioJunctions slug fp fm s)) = publisherStudios (db s)"
  "referencedPublishers (studioJunctions slug fp fm s) = referencedPublishers s"
  "referencedDesigners (studioJunctions slug fp fm s) = referencedDesigners s"
  "created (report (studioJunctions slug fp fm s)) = created (report s)"
  "updated (report (studioJunctions slug fp fm s)) = updated (report s)"
  "unchanged (report (studioJunctions slug fp fm s)) = unchanged (report s)"
  "changes (report (studioJunctions slug fp fm s)) = changes (report s)"
  by (simp_all add: studioJunctions_def Let_def split_def push_error_def split: option.split)

lemma publisherJunctions_entities:
  "games (db (publisherJunctions slug fp fm s)) = games (db s)"
  "studios (db (publisherJunctions slug fp fm s)) = studios (db s)"
  "publishers (db (publisherJunctions slug fp fm s)) = publishers (db s)"
  "designers (db (publisherJunctions slug fp fm s)) = designers (db s)"
  "gameDevelopers (db (publisherJunctions slug fp fm s)) = gameDevelopers (db s)"
  "relatedStudios (db (publisherJunctions slug fp fm s)) = relatedStudios (db s)"
  "referencedPublishers (publisherJunctions slug fp fm s) = referencedPublishers s"
  "referencedDesigners (publisherJunctions slug fp fm s) = referencedDesigners s"
  "created (report (publisherJunctions slug fp fm s)) = created (report s)"
  "updated (report (publisherJunctions slug fp fm s)) = updated (report s)"
  "unchanged (report (publisherJunctions slug fp fm s)) = unchanged (report s)"
  "changes (report (publisherJunctions slug fp fm s)) = changes (report s)"
  by (simp_all add: publisherJunctions_def Let_def split_def push_error_def split: option.split)

lemma upsertStudio_studios:
  "studios (db (upsertStudio slug fp fm secs s)) =
     (if studio_writes slug fp fm secs s
      then (studios (db s))(slug \<mapsto> studioRow fm secs fp (clock s 0)) else studios (db s))"
  by (simp add: upsertStudio_def studio_writes_def studioRow_def Let_def new_Date_def split_def
      split: option.split)

lemma upsertStudio_other_tables:
  "games (db (upsertStudio slug fp fm secs s)) = games (db s)"
  "publishers (db (upsertStudio slug fp fm secs s)) = publishers (db s)"
  "designers (db (upsertStudio slug fp fm secs s)) = designers (db s)"
  "gameDevelopers (db (upsertStudio slug fp fm secs s)) = gameDevelopers (db s)"
  "gamePublishers (db (upsertStudio slug fp fm secs s)) = gamePublishers (db s)"
  "publisherStudios (db (upsertStudio slug fp fm secs s)) = publisherStudios (db s)"
  "relatedStudios (db (upsertStudio slug fp fm secs s)) = relatedStudios (db s)"
  by (simp_all add: upsertStudio_def Let_def new_Date_def split_def split: option.split)

lemma upsertStudio_report:
  "report (upsertStudio slug fp fm secs s) =
     snd (upsert Studio slug (map_option (studio_object slug) (studios (db s) slug))
       (studio_object slug (studioRow fm secs fp (clock s 0))) (report s))"
  by (simp add: upsertStudio_def studioRow_def Let_def new_Date_def split_def split: option.split)

lemma upsertStudio_refs:
  "referencedStudios (upsertStudio slug fp fm secs s) = referencedStudios s"
  "referencedPublishers (upsertStudio slug fp fm secs s) = referencedPublishers s"
  "referencedDesigners (upsertStudio slug fp fm secs s) =
     (case fm of None \<Rightarrow> referencedDesigners s
      | Some d \<Rightarrow> add_director (sf_director d) (referencedDesigners s))"
  by (simp_all add: upsertStudio_def Let_def new_Date_def split_def split: option.split)

lemma upsertPublisher_publishers:
  "publishers (db (upsertPublisher slug fp secs s)) =
     (if publisher_writes slug fp secs s
      then (publishers (db s))(slug \<mapsto> overviewRow secs fp (clock s 0)) else publishers (db s))"
  by (simp add: upsertPublisher_def publisher_writes_def overviewRow_def Let_def new_Date_def split_def)

lemma upsertPublisher_other_tables:
  "games (db (upsertPublisher slug fp secs s)) = games (db s)"
  "studios (db (upsertPublisher slug fp secs s)) = studios (db s)"
  "designers (db (upsertPublisher slug fp secs s)) = designers (db s)"
  "gameDevelopers (db (upsertPublisher slug fp secs s)) = gameDevelopers (db s)"
  "gamePublishers (db (upsertPublisher slug fp secs s)) = gamePublishers (db s)"
  "publisherStudios (db (upsertPublisher slug fp secs s)) = publisherStudios (db s)"
  "relatedStudios (db (upsertPublisher slug fp secs s)) = relatedStudios (db s)"
  "referencedStudios (upsertPublisher slug fp secs s) = referencedStudios s"
  "referencedPublishers (upsertPublisher slug fp secs s) = referencedPublishers s"
  "referencedDesigners (upsertPublisher slug fp secs s) = referencedDesigners s"
  by (simp_all add: upsertPublisher_def Let_def new_Date_def split_def)

lemma upsertPublisher_report:
  "report (upsertPublisher slug fp secs s) =
     snd (upsert Publisher slug (map_option (overview_object slug) (publishers (db s) slug))
       (overview_object slug (overviewRow secs fp (clock s 0))) (report s))"
  by (simp add: upsertPublisher_def overviewRow_def Let_def new_Date_def split_def)

lemma upsertDesigner_designers:
  "designers (db (upsertDesigner slug fp secs s)) =
     (if designer_writes slug fp secs s
      then (designers (db s))(slug \<mapsto> overviewRow secs fp (clock s 0)) else designers (db s))"
  by (simp add: upsertDesigner_def designer_writes_def overviewRow_def Let_def new_Date_def split_def)

lemma upsertDesigner_other_tables:
  "games (db (upsertDesigner slug fp secs s)) = games (db s)"
  "studios (db (upsertDesigner slug fp secs s)) = studios (db s)"
  "publishers (db (upsertDesigner slug fp secs s)) = publishers (db s)"
  "gameDevelopers (db (upsertDesigner slug fp secs s)) = gameDevelopers (db s)"
  "gamePublishers (db (upsertDesigner slug fp secs s)) = gamePublishers (db s)"
  "publisherStudios (db (upsertDesigner slug fp secs s)) = publisherStudios (db s)"
  "relatedStudios (db (upsertDesigner slug fp secs s)) = relatedStudios (db s)"
  "referencedStudios (upsertDesigner slug fp secs s) = referencedStudios s"
  "referencedPublishers (upsertDesigner slug fp secs s) = referencedPublishers s"
  "referencedDesigners (upsertDesigner slug fp secs s) = referencedDesigners s"
  by (simp_all add: upsertDesigner_def Let_def new_Date_def split_def)

lemma upsertDesigner_report:
  "report (upsertDesigner slug fp secs s) =
     snd (upsert Designer slug (map_option (overview_object slug) (designers (db s) slug))
       (overview_object slug (overviewRow secs fp (clock s 0))) (report s))"
  by (simp add: upsertDesigner_def overviewRow_def Let_def new_Date_def split_def)

section \<open>Change detection\<close>

lemma detectChanges_same_comparable:
  "detectChanges slug ty e incoming = [] \<longleftrightarrow> same_comparable e incoming"
  unfolding same_comparable_def by (rule detectChanges_Nil_iff)

lemma upsert_same:
  "same_comparable e incoming \<Longrightarrow>
   upsert ty slug (Some e) incoming rep = (False, rep\<lparr>unchanged := unchanged rep + 1\<rparr>)"
  by (simp add: upsert_def detectChanges_same_comparable)

lemma upsert_writes:
  "fst (upsert ty slug ex incoming rep) \<longleftrightarrow>
     ex = None \<or> (\<exists>e. ex = Some e \<and> \<not> same_comparable e incoming)"
  by (cases ex) (simp_all add: upsert_def detectChanges_same_comparable Let_def)

lemma same_comparable_game_provenance:
  "same_comparable (game_object slug (e\<lparr>g_sourceFile := a, g_lastSyncedAt := b\<rparr>))
       (game_object slug (r\<lparr>g_sourceFile := c, g_lastSyncedAt := d\<rparr>))
     = same_comparable (game_object slug e) (game_object slug r)"
  by (simp add: same_comparable_def game_object_def)

lemma same_comparable_studio_provenance:
  "same_comparable (studio_object slug (e\<lparr>s_sourceFile := a, s_lastSyncedAt := b\<rparr>))
       (studio_object slug (r\<lparr>s_sourceFile := c, s_lastSyncedAt := d\<rparr>))
     = same_comparable (studio_object slug e) (studio_object slug r)"
  by (simp add: same_comparable_def studio_object_def)

lemma same_comparable_overview_provenance:
  "same_comparable (overview_object slug (e\<lparr>o_sourceFile := a, o_lastSyncedAt := b\<rparr>))
       (overview_object slug (r\<lparr>o_sourceFile := c, o_lastSyncedAt := d\<rparr>))
     = same_comparable (overview_object slug e) (overview_object slug r)"
  by (simp add: same_comparable_def overview_object_def)

lemma syncGame_valid:
  "parseMarkdownFile file = Inr parsed \<Longrightarrow> gameFrontmatterSchema (frontmatter parsed) = Success fm \<Longrightarrow>
   syncGame file s =
     replaceGameJunctions (slugFromPath (doc_path file)) (doc_path file) fm
       (upsertGame (slugFromPath (doc_path file)) (doc_path file) fm (sections parsed) s)"
  by (simp add: syncGame_def Let_def)

lemma syncStudio_parsed:
  "parseMarkdownFile file = Inr parsed \<Longrightarrow>
   syncStudio file s =
     studioJunctions (slugFromPath (doc_path file)) (doc_path file)
       (case studioFrontmatterSchema (frontmatter parsed) of Failure \<Rightarrow> None | Success d \<Rightarrow> Some d)
       (upsertStudio (slugFromPath (doc_path file)) (doc_path file)
         (case studioFrontmatterSchema (frontmatter parsed) of Failure \<Rightarrow> None | Success d \<Rightarrow> Some d)
         (sections parsed) s)"
  by (simp add: syncStudio_def Let_def)

lemma syncPublisher_parsed:
  "parseMarkdownFile file = Inr parsed \<Longrightarrow>
   syncPublisher file s =
     publisherJunctions (slugFromPath (doc_path file)) (doc_path file)
       (case publisherFrontmatterSchema (frontmatter parsed) of Failure \<Rightarrow> None | Success d \<Rightarrow> Some d)
       (upsertPublisher (slugFromPath (doc_path file)) (doc_path file) (sections parsed) s)"
  by (simp add: syncPublisher_def Let_def)

lemma syncDesigner_parsed:
  "parseMarkdownFile file = Inr parsed \<Longrightarrow>
   syncDesigner file s =
     (upsertDesigner (slugFromPath (doc_path file)) (doc_path file) (sections parsed) s)
       \<lparr>report := (report (upsertDesigner (slugFromPath (doc_path file)) (doc_path file) (sections parsed) s))
          \<lparr>designersProcessed := designersProcessed
             (report (upsertDesigner (slugFromPath (doc_path file)) (doc_path file) (sections parsed) s)) + 1\<rparr>\<rparr>"
  by (simp add: syncDesigner_def Let_def)

lemma syncGame_unchanged:
  assumes "parseMarkdownFile file = Inr parsed"
    and "gameFrontmatterSchema (frontmatter parsed) = Success fm"
    and "games (db s) (slugFromPath (doc_path file)) = Some e"
    and "same_comparable (game_object (slugFromPath (doc_path file)) e)
           (game_object (slugFromPath (doc_path file))
              (gameRow fm (sections parsed) (doc_path file) (clock s 0)))"
  shows "games (db (syncGame file s)) = games (db s)
       \<and> unchanged (report (syncGame file s)) = unchanged (report s) + 1
       \<and> created (report (syncGame file s)) = created (report s)
       \<and> updated (report (syncGame file s)) = updated (report s)
       \<and> changes (report (syncGame file s)) = changes (report s)"
  using assms
  by (simp add: syncGame_valid replaceGameJunctions_entities upsertGame_games upsertGame_report
      game_writes_def upsert_same)

lemma syncStudio_unchanged:
  assumes "parseMarkdownFile file = Inr parsed"
    and "studios (db s) (slugFromPath (doc_path file)) = Some e"
    and "same_comparable (studio_object (slugFromPath (doc_path file)) e)
           (studio_object (slugFromPath (doc_path file))
              (studioRow (case studioFrontmatterSchema (frontmatter parsed) of
                            Failure \<Rightarrow> None | Success d \<Rightarrow> Some d)
                 (sections parsed) (doc_path file) (clock s 0)))"
  shows "studios (db (syncStudio file s)) = studios (db s)
       \<and> unchanged (report (syncStudio file s)) = unchanged (report s) + 1
       \<and> created (report (syncStudio file s)) = created (report s)
       \<and> updated (report (syncStudio file s)) = updated (report s)
       \<and> changes (report (syncStudio file s)) = changes (report s)"
  using assms
  by (simp add: syncStudio_parsed studioJunctions_entities upsertStudio_studios upsertStudio_report
      studio_writes_def upsert_same)

lemma syncPublisher_unchanged:
  assumes "parseMarkdownFile file = Inr parsed"
    and "publishers (db s) (slugFromPath (doc_path file)) = Some e"
    and "same_comparable (overview_object (slugFromPath (doc_path file)) e)
           (overview_object (slugFromPath (doc_path file))
              (overviewRow (sections parsed) (doc_path file) (clock s 0)))"
  shows "publishers (db (syncPublisher file s)) = publishers (db s)
       \<and> unchanged (report (syncPublisher file s)) = unchanged (report s) + 1
       \<and> created (report (syncPublisher file s)) = created (report s)
       \<and> updated (report (syncPublisher file s)) = updated (report s)
       \<and> changes (report (syncPublisher file s)) = changes (report s)"
  using assms
  by (simp add: syncPublisher_parsed publisherJunctions_entities upsertPublisher_publishers
      upsertPublisher_report publisher_writes_def upsert_same)

lemma syncDesigner_unchanged:
  assumes "parseMarkdownFile file = Inr parsed"
    and "designers (db s) (slugFromPath (doc_path file)) = Some e"
    and "same_comparable (overview_object (slugFromPath (doc_path file)) e)
           (overview_object (slugFromPath (doc_path file))
              (overviewRow (sections parsed) (doc_path file) (clock s 0)))"
  shows "designers (db (syncDesigner file s)) = designers (db s)
       \<and> unchanged (report (syncDesigner file s)) = unchanged (report s) + 1
       \<and> created (report (syncDesigner file s)) = created (report s)
       \<and> updated (report (syncDesigner file s)) = updated (report s)
       \<and> changes (report (syncDesigner file s)) = changes (report s)"
  using assms
  by (simp add: syncDesigner_parsed upsertDesigner_designers
      upsertDesigner_report designer_writes_def upsert_same)

section \<open>Rows that do not change\<close>

lemma syncStubGame_games:
  "games (db (syncStubGame slug fp s)) =
     (case games (db s) slug of
        Some e \<Rightarrow> games (db s)
      | None \<Rightarrow> (games (db s))(slug \<mapsto> stub_game_row fp (clock s 0)))"
  by (simp add: syncStubGame_def Let_def new_Date_def split: option.split)

lemma syncStubGame_report:
  "gamesProcessed (report (syncStubGame slug fp s)) = gamesProcessed (report s) + 1"
  "created (report (syncStubGame slug fp s)) =
     (case games (db s) slug of Some e \<Rightarrow> created (report s) | None \<Rightarrow> created (report s) + 1)"
  "updated (report (syncStubGame slug fp s)) = updated (report s)"
  "unchanged (report (syncStubGame slug fp s)) = unchanged (report s)"
  "changes (report (syncStubGame slug fp s)) = changes (report s)"
  "errors (report (syncStubGame slug fp s)) = errors (report s)"
  by (simp_all add: syncStubGame_def Let_def new_Date_def split: option.split)

lemma syncStubGame_other_tables:
  "studios (db (syncStubGame slug fp s)) = studios (db s)"
  "publishers (db (syncStubGame slug fp s)) = publishers (db s)"
  "designers (db (syncStubGame slug fp s)) = designers (db s)"
  "gameDevelopers (db (syncStubGame slug fp s)) = gameDevelopers (db s)"
  "gamePublishers (db (syncStubGame slug fp s)) = gamePublishers (db s)"
  "publisherStudios (db (syncStubGame slug fp s)) = publisherStudios (db s)"
  "relatedStudios (db (syncStubGame slug fp s)) = relatedStudios (db s)"
  "referencedStudios (syncStubGame slug fp s) = referencedStudios s"
  "referencedPublishers (syncStubGame slug fp s) = referencedPublishers s"
  "referencedDesigners (syncStubGame slug fp s) = referencedDesigners s"
  by (simp_all add: syncStubGame_def Let_def new_Date_def split: option.split)

lemma syncGame_throws:
  "parseMarkdownFile file = Inl err \<Longrightarrow>
   syncGame file s = push_error (''Error syncing game '' @ doc_path file @ '': '' @ err) s"
  by (simp add: syncGame_def Let_def)

lemma syncGame_invalid:
  "parseMarkdownFile file = Inr parsed \<Longrightarrow> gameFrontmatterSchema (frontmatter parsed) = Failure \<Longrightarrow>
   syncGame file s = syncStubGame (slugFromPath (doc_path file)) (doc_path file) s"
  by (simp add: syncGame_def Let_def)

lemma push_error_fields:
  "db (push_error msg s) = db s"
  "referencedStudios (push_error msg s) = referencedStudios s"
  "referencedPublishers (push_error msg s) = referencedPublishers s"
  "referencedDesigners (push_error msg s) = referencedDesigners s"
  "clock (push_error msg s) = clock s"
  "created (report (push_error msg s)) = created (report s)"
  "updated (report (push_error msg s)) = updated (report s)"
  "unchanged (report (push_error msg s)) = unchanged (report s)"
  "changes (report (push_error msg s)) = changes (report s)"
  "gamesProcessed (report (push_error msg s)) = gamesProcessed (report s)"
  "studiosProcessed (report (push_error msg s)) = studiosProcessed (report s)"
  "publishersProcessed (report (push_error msg s)) = publishersProcessed (report s)"
  "designersProcessed (report (push_error msg s)) = designersProcessed (report s)"
  "errors (report (push_error msg s)) = errors (report s) @ [msg]"
  by (simp_all add: push_error_def)

lemma syncGame_writes_only_new_or_different:
  assumes "games (db (syncGame file s)) \<noteq> games (db s)"
  shows "games (db s) (slugFromPath (doc_path file)) = None
       \<or> (\<exists>e parsed fm.
            games (db s) (slugFromPath (doc_path file)) = Some e
            \<and> parseMarkdownFile file = Inr parsed
            \<and> gameFrontmatterSchema (frontmatter parsed) = Success fm
            \<and> \<not> same_comparable (game_object (slugFromPath (doc_path file)) e)
                  (game_object (slugFromPath (doc_path file))
                     (gameRow fm (sections parsed) (doc_path file) (clock s 0))))"
proof (cases "parseMarkdownFile file")
  case (Inl err)
  with assms show ?thesis by (simp add: syncGame_throws push_error_fields)
next
  case (Inr parsed)
  show ?thesis
  proof (cases "gameFrontmatterSchema (frontmatter parsed)")
    case Failure
    with Inr assms show ?thesis
      by (auto simp: syncGame_invalid syncStubGame_games split: option.splits)
  next
    case (Success fm)
    with Inr assms have "game_writes (slugFromPath (doc_path file)) (doc_path file) fm (sections parsed) s"
      by (auto simp: syncGame_valid replaceGameJunctions_entities upsertGame_games split: if_splits)
    then show ?thesis
      using Inr Success unfolding game_writes_def upsert_writes by auto
  qed
qed

text \<open>
  C7. A stored row whose comparable fields all serialize as those of the incoming row is not
  written: the table is the same after the turn, \<open>lastSyncedAt\<close> and \<open>sourceFile\<close> included, and
  the report counts one more unchanged, for each of the four kinds. A row is written only when
  there was none or a comparable field differs. The values of \<open>sourceFile\<close> and \<open>lastSyncedAt\<close>
  in either row do not enter the comparison.
\<close>

theorem unchanged_row_is_not_written:
  "(same_comparable e incoming \<longrightarrow>
      upsert ty slug (Some e) incoming rep = (False, rep\<lparr>unchanged := unchanged rep + 1\<rparr>))
   \<and> (fst (upsert ty slug ex incoming rep) \<longrightarrow>
        ex = None \<or> (\<exists>e'. ex = Some e' \<and> \<not> same_comparable e' incoming))
   \<and> (parseMarkdownFile file = Inr parsed
        \<and> gameFrontmatterSchema (frontmatter parsed) = Success fm
        \<and> games (db s) (slugFromPath (doc_path file)) = Some g
        \<and> same_comparable (game_object (slugFromPath (doc_path file)) g)
             (game_object (slugFromPath (doc_path file))
                (gameRow fm (sections parsed) (doc_path file) (clock s 0)))
      \<longrightarrow> games (db (syncGame file s)) = games (db s)
          \<and> unchanged (report (syncGame file s)) = unchanged (report s) + 1
          \<and> created (report (syncGame file s)) = created (report s)
          \<and> updated (report (syncGame file s)) = updated (report s)
          \<and> changes (report (syncGame file s)) = changes (report s))
   \<and> (games (db (syncGame file s)) \<noteq> games (db s) \<longrightarrow>
        games (db s) (slugFromPath (doc_path file)) = None
        \<or> (\<exists>e' parsed' fm'.
             games (db s) (slugFromPath (doc_path file)) = Some e'
             \<and> parseMarkdownFile file = Inr parsed'
             \<and> gameFrontmatterSchema (frontmatter parsed') = Success fm'
             \<and> \<not> same_comparable (game_object (slugFromPath (doc_path file)) e')
                   (game_object (slugFromPath (doc_path file))
                      (gameRow fm' (sections parsed') (doc_path file) (clock s 0)))))
   \<and> (parseMarkdownFile file = Inr parsed
        \<and> studios (db s) (slugFromPath (doc_path file)) = Some st
        \<and> same_comparable (studio_object (slugFromPath (doc_path file)) st)
             (studio_object (slugFromPath (doc_path file))
                (studioRow (case studioFrontmatterSchema (frontmatter parsed) of
                              Failure \<Rightarrow> None | Success d \<Rightarrow> Some d)
                   (sections parsed) (doc_path file) (clock s 0)))
      \<longrightarrow> studios (db (syncStudio file s)) = studios (db s)
          \<and> unchanged (report (syncStudio file s)) = unchanged (report s) + 1
          \<and> created (report (syncStudio file s)) = created (report s)
          \<and> updated (report (syncStudio file s)) = updated (report s)
          \<and> changes (report (syncStudio file s)) = changes (report s))
   \<and> (parseMarkdownFile file = Inr parsed
        \<and> publishers (db s) (slugFromPath (doc_path file)) = Some p
        \<and> same_comparable (overview_object (slugFromPath (doc_path file)) p)
             (overview_object (slugFromPath (doc_path file))
                (overviewRow (sections parsed) (doc_path file) (clock s 0)))
      \<longrightarrow> publishers (db (syncPublisher file s)) = publishers (db s)
          \<and> unchanged (report (syncPublisher file s)) = unchanged (report s) + 1
          \<and> created (report (syncPublisher file s)) = created (report s)
          \<and> updated (report (syncPublisher file s)) = updated (report s)
          \<and> changes (report (syncPublisher file s)) = changes (report s))
   \<and> (parseMarkdownFile file = Inr parsed
        \<and> designers (db s) (slugFromPath (doc_path file)) = Some p
        \<and> same_comparable (overview_object (slugFromPath (doc_path file)) p)
             (overview_object (slugFromPath (doc_path file))
                (overviewRow (sections parsed) (doc_path file) (clock s 0)))
      \<longrightarrow> designers (db (syncDesigner file s)) = designers (db s)
          \<and> unchanged (report (syncDesigner file s)) = unchanged (report s) + 1
          \<and> created (report (syncDesigner file s)) = created (report s)
          \<and> updated (report (syncDesigner file s)) = updated (report s)
          \<and> changes (report (syncDesigner file s)) = changes (report s))
   \<and> same_comparable (game_object slug (g\<lparr>g_sourceFile := a, g_lastSyncedAt := b\<rparr>))
          (game_object slug (g'\<lparr>g_sourceFile := c, g_lastSyncedAt := d\<rparr>))
        = same_comparable (game_object slug g) (game_object slug g')
   \<and> same_comparable (studio_object slug (st\<lparr>s_sourceFile := a, s_lastSyncedAt := b\<rparr>))
          (studio_object slug (st'\<lparr>s_sourceFile := c, s_lastSyncedAt := d\<rparr>))
        = same_comparable (studio_object slug st) (studio_object slug st')
   \<and> same_comparable (overview_object slug (p\<lparr>o_sourceFile := a, o_lastSyncedAt := b\<rparr>))
          (overview_object slug (p'\<lparr>o_sourceFile := c, o_lastSyncedAt := d\<rparr>))
        = same_comparable (overview_object slug p) (overview_object slug p')"
proof (intro conjI impI)
  show "games (db s) (slugFromPath (doc_path file)) = None
        \<or> (\<exists>e' parsed' fm'.
             games (db s) (slugFromPath (doc_path file)) = Some e'
             \<and> parseMarkdownFile file = Inr parsed'
             \<and> gameFrontmatterSchema (frontmatter parsed') = Success fm'
             \<and> \<not> same_comparable (game_object (slugFromPath (doc_path file)) e')
                   (game_object (slugFromPath (doc_path file))
                      (gameRow fm' (sections parsed') (doc_path file) (clock s 0))))"
    if "games (db (syncGame file s)) \<noteq> games (db s)"
    using that by (rule syncGame_writes_only_new_or_different)
qed (auto simp: upsert_same upsert_writes syncGame_unchanged syncStudio_unchanged
      syncPublisher_unchanged syncDesigner_unchanged same_comparable_game_provenance
      same_comparable_studio_provenance same_comparable_overview_provenance)

theorem unchanged_row_is_not_written_witness:
  "games (db (syncGame
       \<lparr>doc_path = ''lib/games/G.md'',
        doc_matter = Inr ((\<lambda>k. JUndefined)(''class'' := JStr ''game''), [])\<rparr>
       (initial_state (\<lambda>n. ''2026-11-02T10:00:00.000Z'')
          (empty_store\<lparr>games := [''G'' \<mapsto>
             (stub_game_row ''lib/games/G.md'' ''2020-01-01T00:00:00.000Z'')
               \<lparr>g_gameGenre := Some [], g_gameModes := Some [], g_gameGenreTags := Some [],
                g_playerPerspective := Some []\<rparr>]\<rparr>)))) ''G''
     = Some ((stub_game_row ''lib/games/G.md'' ''2020-01-01T00:00:00.000Z'')
               \<lparr>g_gameGenre := Some [], g_gameModes := Some [], g_gameGenreTags := Some [],
                g_playerPerspective := Some []\<rparr>)
   \<and> unchanged (report (syncGame
       \<lparr>doc_path = ''lib/games/G.md'',
        doc_matter = Inr ((\<lambda>k. JUndefined)(''class'' := JStr ''game''), [])\<rparr>
       (initial_state (\<lambda>n. ''2026-11-02T10:00:00.000Z'')
          (empty_store\<lparr>games := [''G'' \<mapsto>
             (stub_game_row ''lib/games/G.md'' ''2020-01-01T00:00:00.000Z'')
               \<lparr>g_gameGenre := Some [], g_gameModes := Some [], g_gameGenreTags := Some [],
                g_playerPerspective := Some []\<rparr>]\<rparr>)))) = 1"
proof -
  let ?doc = "\<lparr>doc_path = ''lib/games/G.md'',
        doc_matter = Inr ((\<lambda>k. JUndefined)(''class'' := JStr ''game''), [])\<rparr>"
  let ?row = "(stub_game_row ''lib/games/G.md'' ''2020-01-01T00:00:00.000Z'')
               \<lparr>g_gameGenre := Some [], g_gameModes := Some [], g_gameGenreTags := Some [],
                g_playerPerspective := Some []\<rparr>"
  let ?s = "initial_state (\<lambda>n. ''2026-11-02T10:00:00.000Z'') (empty_store\<lparr>games := [''G'' \<mapsto> ?row]\<rparr>)"
  let ?parsed = "\<lparr>frontmatter = (\<lambda>k. JUndefined)(''class'' := JStr ''game''),
        sections = splitContentSections [], rawContent = []\<rparr>"
  let ?fm = "\<lparr>fm_status = None, fm_game_genre = [], fm_game_modes = [], fm_game_genre_tags = [],
        fm_player_perspective = [], fm_platform = None, fm_engine = None, fm_developer = [],
        fm_publisher = [], fm_director = None, fm_release = None\<rparr>"
  have path: "doc_path ?doc = ''lib/games/G.md''" by simp
  have slug: "slugFromPath ''lib/games/G.md'' = ''G''" by code_simp
  have parsed: "parseMarkdownFile ?doc = Inr ?parsed"
    by (simp add: parseMarkdownFile_def)
  have valid: "gameFrontmatterSchema (frontmatter ?parsed) = Success ?fm"
    by (simp add: gameFrontmatterSchema_def and_then_def statusSchema_def platformSchema_def
        trimmedTextSchema_def optionalWikiLinkArray_def normalizeStatus_def normalizePlatform_def
        trimOrNull_def)
  have existing: "games (db ?s) ''G'' = Some ?row"
    by (simp add: initial_state_def empty_store_def)
  have secs: "sections ?parsed = Map.empty"
    by (simp add: splitContentSections_def)
  have same: "same_comparable (game_object ''G'' ?row)
      (game_object ''G'' (gameRow ?fm (sections ?parsed) ''lib/games/G.md'' (clock ?s 0)))"
    unfolding secs
    by (simp add: same_comparable_def game_object_def gameRow_def stub_game_row_def)
  note inst = unchanged_row_is_not_written[THEN conjunct2, THEN conjunct2, THEN conjunct1,
      of "?doc" "?parsed" "?fm" "?s" "?row", unfolded path slug]
  from inst parsed valid existing same
  have "games (db (syncGame ?doc ?s)) = games (db ?s)"
    and "unchanged (report (syncGame ?doc ?s)) = unchanged (report ?s) + 1"
    by blast+
  then show ?thesis
    using existing by (simp add: initial_state_def empty_report_def)
qed

section \<open>Front matter that fails validation\<close>

lemma upsert_changes:
  "changes (snd (upsert ty slug ex incoming rep)) =
     changes rep @ (case ex of None \<Rightarrow> [] | Some e \<Rightarrow> detectChanges slug ty e incoming)"
  by (simp add: upsert_def Let_def split: option.split)

lemma upsert_counts:
  "created (snd (upsert ty slug ex incoming rep)) + updated (snd (upsert ty slug ex incoming rep))
     + unchanged (snd (upsert ty slug ex incoming rep))
   = created rep + updated rep + unchanged rep + 1"
  by (simp add: upsert_def Let_def split: option.split)

lemma upsert_other_counts:
  "gamesProcessed (snd (upsert ty slug ex incoming rep)) = gamesProcessed rep"
  "studiosProcessed (snd (upsert ty slug ex incoming rep)) = studiosProcessed rep"
  "publishersProcessed (snd (upsert ty slug ex incoming rep)) = publishersProcessed rep"
  "designersProcessed (snd (upsert ty slug ex incoming rep)) = designersProcessed rep"
  "errors (snd (upsert ty slug ex incoming rep)) = errors rep"
  by (simp_all add: upsert_def Let_def split: option.split)

lemma studioJunctions_None:
  "studioJunctions slug fp None s =
     s\<lparr>report := (report s)\<lparr>studiosProcessed := studiosProcessed (report s) + 1\<rparr>\<rparr>"
  by (simp add: studioJunctions_def)

lemma publisherJunctions_None:
  "publisherJunctions slug fp None s =
     s\<lparr>report := (report s)\<lparr>publishersProcessed := publishersProcessed (report s) + 1\<rparr>\<rparr>"
  by (simp add: publisherJunctions_def)

lemma syncStudio_invalid:
  assumes "parseMarkdownFile file = Inr parsed"
    and "studioFrontmatterSchema (frontmatter parsed) = Failure"
  shows "syncStudio file s =
     (upsertStudio (slugFromPath (doc_path file)) (doc_path file) None (sections parsed) s)
       \<lparr>report := (report (upsertStudio (slugFromPath (doc_path file)) (doc_path file) None (sections parsed) s))
          \<lparr>studiosProcessed := studiosProcessed
             (report (upsertStudio (slugFromPath (doc_path file)) (doc_path file) None (sections parsed) s)) + 1\<rparr>\<rparr>"
  using assms by (simp add: syncStudio_parsed studioJunctions_None)

lemma syncPublisher_invalid:
  assumes "parseMarkdownFile file = Inr parsed"
    and "publisherFrontmatterSchema (frontmatter parsed) = Failure"
  shows "syncPublisher file s =
     (upsertPublisher (slugFromPath (doc_path file)) (doc_path file) (sections parsed) s)
       \<lparr>report := (report (upsertPublisher (slugFromPath (doc_path file)) (doc_path file) (sections parsed) s))
          \<lparr>publishersProcessed := publishersProcessed
             (report (upsertPublisher (slugFromPath (doc_path file)) (doc_path file) (sections parsed) s)) + 1\<rparr>\<rparr>"
  using assms by (simp add: syncPublisher_parsed publisherJunctions_None)

lemma syncStudio_invalid_effect:
  assumes "parseMarkdownFile file = Inr parsed"
    and "studioFrontmatterSchema (frontmatter parsed) = Failure"
  shows "studios (db (syncStudio file s)) =
       (if studios (db s) (slugFromPath (doc_path file)) = None
           \<or> (\<exists>e. studios (db s) (slugFromPath (doc_path file)) = Some e
                 \<and> \<not> same_comparable (studio_object (slugFromPath (doc_path file)) e)
                       (studio_object (slugFromPath (doc_path file))
                          \<lparr>s_director = None, s_overviewText = sections parsed ''overview'',
                           s_sourceFile = doc_path file, s_lastSyncedAt = clock s 0\<rparr>))
        then (studios (db s))(slugFromPath (doc_path file) \<mapsto>
               \<lparr>s_director = None, s_overviewText = sections parsed ''overview'',
                s_sourceFile = doc_path file, s_lastSyncedAt = clock s 0\<rparr>)
        else studios (db s))"
    and "changes (report (syncStudio file s)) =
       changes (report s) @
         (case studios (db s) (slugFromPath (doc_path file)) of
            None \<Rightarrow> []
          | Some e \<Rightarrow> detectChanges (slugFromPath (doc_path file)) Studio
                       (studio_object (slugFromPath (doc_path file)) e)
                       (studio_object (slugFromPath (doc_path file))
                          \<lparr>s_director = None, s_overviewText = sections parsed ''overview'',
                           s_sourceFile = doc_path file, s_lastSyncedAt = clock s 0\<rparr>))"
    and "created (report (syncStudio file s)) + updated (report (syncStudio file s))
           + unchanged (report (syncStudio file s))
         = created (report s) + updated (report s) + unchanged (report s) + 1"
    and "studiosProcessed (report (syncStudio file s)) = studiosProcessed (report s) + 1"
    and "errors (report (syncStudio file s)) = errors (report s)"
  unfolding syncStudio_invalid[OF assms]
  subgoal
    by (cases "studios (db s) (slugFromPath (doc_path file))")
      (simp_all add: upsertStudio_studios studio_writes_def upsert_writes studioRow_def)
  by (simp_all add: upsertStudio_report upsert_changes upsert_counts upsert_other_counts
      studioRow_def split: option.split)

lemma syncPublisher_invalid_effect:
  assumes "parseMarkdownFile file = Inr parsed"
    and "publisherFrontmatterSchema (frontmatter parsed) = Failure"
  shows "publishers (db (syncPublisher file s)) =
       (if publishers (db s) (slugFromPath (doc_path file)) = None
           \<or> (\<exists>e. publishers (db s) (slugFromPath (doc_path file)) = Some e
                 \<and> \<not> same_comparable (overview_object (slugFromPath (doc_path file)) e)
                       (overview_object (slugFromPath (doc_path file))
                          \<lparr>o_overviewText = sections parsed ''overview'',
                           o_sourceFile = doc_path file, o_lastSyncedAt = clock s 0\<rparr>))
        then (publishers (db s))(slugFromPath (doc_path file) \<mapsto>
               \<lparr>o_overviewText = sections parsed ''overview'',
                o_sourceFile = doc_path file, o_lastSyncedAt = clock s 0\<rparr>)
        else publishers (db s))"
    and "changes (report (syncPublisher file s)) =
       changes (report s) @
         (case publishers (db s) (slugFromPath (doc_path file)) of
            None \<Rightarrow> []
          | Some e \<Rightarrow> detectChanges (slugFromPath (doc_path file)) Publisher
                       (overview_object (slugFromPath (doc_path file)) e)
                       (overview_object (slugFromPath (doc_path file))
                          \<lparr>o_overviewText = sections parsed ''overview'',
                           o_sourceFile = doc_path file, o_lastSyncedAt = clock s 0\<rparr>))"
    and "created (report (syncPublisher file s)) + updated (report (syncPublisher file s))
           + unchanged (report (syncPublisher file s))
         = created (report s) + updated (report s) + unchanged (report s) + 1"
    and "publishersProcessed (report (syncPublisher file s)) = publishersProcessed (report s) + 1"
    and "errors (report (syncPublisher file s)) = errors (report s)"
  unfolding syncPublisher_invalid[OF assms]
  subgoal
    by (cases "publishers (db s) (slugFromPath (doc_path file))")
      (simp_all add: upsertPublisher_publishers publisher_writes_def upsert_writes overviewRow_def)
  by (simp_all add: upsertPublisher_report upsert_changes upsert_counts upsert_other_counts
      overviewRow_def split: option.split)

lemma syncGame_invalid_effect:
  assumes "parseMarkdownFile file = Inr parsed"
    and "gameFrontmatterSchema (frontmatter parsed) = Failure"
  shows "games (db (syncGame file s)) =
       (case games (db s) (slugFromPath (doc_path file)) of
          Some e \<Rightarrow> games (db s)
        | None \<Rightarrow> (games (db s))(slugFromPath (doc_path file) \<mapsto>
                     stub_game_row (doc_path file) (clock s 0)))"
    and "changes (report (syncGame file s)) = changes (report s)"
    and "updated (report (syncGame file s)) = updated (report s)"
    and "unchanged (report (syncGame file s)) = unchanged (report s)"
    and "gamesProcessed (report (syncGame file s)) = gamesProcessed (report s) + 1"
  unfolding syncGame_invalid[OF assms]
  by (simp_all add: syncStubGame_games syncStubGame_report)

text \<open>
  C9. A studio or publisher file whose front matter fails validation is neither skipped nor
  made a stub: its row, with the overview of the body, no director and the path of the file,
  is inserted when the slug has none, compared with the row there otherwise and written when
  a field differs; the changes are reported and the file is counted. A game file whose front
  matter fails validation only gets a row of provenance when the slug has none.
\<close>

theorem invalid_front_matter_still_upserts:
  "(parseMarkdownFile file = Inr parsed \<and> studioFrontmatterSchema (frontmatter parsed) = Failure
      \<longrightarrow> studios (db (syncStudio file s)) =
            (if studios (db s) (slugFromPath (doc_path file)) = None
                \<or> (\<exists>e. studios (db s) (slugFromPath (doc_path file)) = Some e
                      \<and> \<not> same_comparable (studio_object (slugFromPath (doc_path file)) e)
                            (studio_object (slugFromPath (doc_path file))
                               \<lparr>s_director = None, s_overviewText = sections parsed ''overview'',
                                s_sourceFile = doc_path file, s_lastSyncedAt = clock s 0\<rparr>))
             then (studios (db s))(slugFromPath (doc_path file) \<mapsto>
                    \<lparr>s_director = None, s_overviewText = sections parsed ''overview'',
                     s_sourceFile = doc_path file, s_lastSyncedAt = clock s 0\<rparr>)
             else studios (db s))
          \<and> changes (report (syncStudio file s)) =
              changes (report s) @
                (case studios (db s) (slugFromPath (doc_path file)) of
                   None \<Rightarrow> []
                 | Some e \<Rightarrow> detectChanges (slugFromPath (doc_path file)) Studio
                              (studio_object (slugFromPath (doc_path file)) e)
                              (studio_object (slugFromPath (doc_path file))
                                 \<lparr>s_director = None, s_overviewText = sections parsed ''overview'',
                                  s_sourceFile = doc_path file, s_lastSyncedAt = clock s 0\<rparr>))
          \<and> created (report (syncStudio file s)) + updated (report (syncStudio file s))
                + unchanged (report (syncStudio file s))
              = created (report s) + updated (report s) + unchanged (report s) + 1
          \<and> studiosProcessed (report (syncStudio file s)) = studiosProcessed (report s) + 1
          \<and> errors (report (syncStudio file s)) = errors (report s))
   \<and> (parseMarkdownFile file = Inr parsed \<and> publisherFrontmatterSchema (frontmatter parsed) = Failure
      \<longrightarrow> publishers (db (syncPublisher file s)) =
            (if publishers (db s) (slugFromPath (doc_path file)) = None
                \<or> (\<exists>e. publishers (db s) (slugFromPath (doc_path file)) = Some e
                      \<and> \<not> same_comparable (overview_object (slugFromPath (doc_path file)) e)
                            (overview_object (slugFromPath (doc_path file))
                               \<lparr>o_overviewText = sections parsed ''overview'',
                                o_sourceFile = doc_path file, o_lastSyncedAt = clock s 0\<rparr>))
             then (publishers (db s))(slugFromPath (doc_path file) \<mapsto>
                    \<lparr>o_overviewText = sections parsed ''overview'',
                     o_sourceFile = doc_path file, o_lastSyncedAt = clock s 0\<rparr>)
             else publishers (db s))
          \<and> changes (report (syncPublisher file s)) =
              changes (report s) @
                (case publishers (db s) (slugFromPath (doc_path file)) of
                   None \<Rightarrow> []
                 | Some e \<Rightarrow> detectChanges (slugFromPath (doc_path file)) Publisher
                              (overview_object (slugFromPath (doc_path file)) e)
                              (overview_object (slugFromPath (doc_path file))
                                 \<lparr>o_overviewText = sections parsed ''overview'',
                                  o_sourceFile = doc_path file, o_lastSyncedAt = clock s 0\<rparr>))
          \<and> created (report (syncPublisher file s)) + updated (report (syncPublisher file s))
                + unchanged (report (syncPublisher file s))
              = created (report s) + updated (report s) + unchanged (report s) + 1
          \<and> publishersProcessed (report (syncPublisher file s)) = publishersProcessed (report s) + 1
          \<and> errors (report (syncPublisher file s)) = errors (report s))
   \<and> (parseMarkdownFile file = Inr parsed \<and> gameFrontmatterSchema (frontmatter parsed) = Failure
      \<longrightarrow> games (db (syncGame file s)) =
            (case games (db s) (slugFromPath (doc_path file)) of
               Some e \<Rightarrow> games (db s)
             | None \<Rightarrow> (games (db s))(slugFromPath (doc_path file) \<mapsto>
                          stub_game_row (doc_path file) (clock s 0)))
          \<and> changes (report (syncGame file s)) = changes (report s)
          \<and> updated (report (syncGame file s)) = updated (report s)
          \<and> unchanged (report (syncGame file s)) = unchanged (report s)
          \<and> gamesProcessed (report (syncGame file s)) = gamesProcessed (report s) + 1)"
proof (intro conjI impI; elim conjE)
  assume a: "parseMarkdownFile file = Inr parsed" "studioFrontmatterSchema (frontmatter parsed) = Failure"
  note e = syncStudio_invalid_effect[OF a, of s]
  show "studios (db (syncStudio file s)) =
            (if studios (db s) (slugFromPath (doc_path file)) = None
                \<or> (\<exists>e. studios (db s) (slugFromPath (doc_path file)) = Some e
                      \<and> \<not> same_comparable (studio_object (slugFromPath (doc_path file)) e)
                            (studio_object (slugFromPath (doc_path file))
                               \<lparr>s_director = None, s_overviewText = sections parsed ''overview'',
                                s_sourceFile = doc_path file, s_lastSyncedAt = clock s 0\<rparr>))
             then (studios (db s))(slugFromPath (doc_path file) \<mapsto>
                    \<lparr>s_director = None, s_overviewText = sections parsed ''overview'',
                     s_sourceFile = doc_path file, s_lastSyncedAt = clock s 0\<rparr>)
             else studios (db s))" by (rule e(1))
  show "changes (report (syncStudio file s)) =
              changes (report s) @
                (case studios (db s) (slugFromPath (doc_path file)) of
                   None \<Rightarrow> []
                 | Some e \<Rightarrow> detectChanges (slugFromPath (doc_path file)) Studio
                              (studio_object (slugFromPath (doc_path file)) e)
                              (studio_object (slugFromPath (doc_path file))
                                 \<lparr>s_director = None, s_overviewText = sections parsed ''overview'',
                                  s_sourceFile = doc_path file, s_lastSyncedAt = clock s 0\<rparr>))"
    by (rule e(2))
  show "created (report (syncStudio file s)) + updated (report (syncStudio file s))
                + unchanged (report (syncStudio file s))
              = created (report s) + updated (report s) + unchanged (report s) + 1"
    by (rule e(3))
  show "studiosProcessed (report (syncStudio file s)) = studiosProcessed (report s) + 1"
    by (rule e(4))
  show "errors (report (syncStudio file s)) = errors (report s)"
    by (rule e(5))
next
  assume a: "parseMarkdownFile file = Inr parsed" "publisherFrontmatterSchema (frontmatter parsed) = Failure"
  note e = syncPublisher_invalid_effect[OF a, of s]
  show "publishers (db (syncPublisher file s)) =
            (if publishers (db s) (slugFromPath (doc_path file)) = None
                \<or> (\<exists>e. publishers (db s) (slugFromPath (doc_path file)) = Some e
                      \<and> \<not> same_comparable (overview_object (slugFromPath (doc_path file)) e)
                            (overview_object (slugFromPath (doc_path file))
                               \<lparr>o_overviewText = sections parsed ''overview'',
                                o_sourceFile = doc_path file, o_lastSyncedAt = clock s 0\<rparr>))
             then (publishers (db s))(slugFromPath (doc_path file) \<mapsto>
                    \<lparr>o_overviewText = sections parsed ''overview'',
                     o_sourceFile = doc_path file, o_lastSyncedAt = clock s 0\<rparr>)
             else publishers (db s))" by (rule e(1))
  show "changes (report (syncPublisher file s)) =
              changes (report s) @
                (case publishers (db s) (slugFromPath (doc_path file)) of
                   None \<Rightarrow> []
                 | Some e \<Rightarrow> detectChanges (slugFromPath (doc_path file)) Publisher
                              (overview_object (slugFromPath (doc_path file)) e)
                              (overview_object (slugFromPath (doc_path file))
                                 \<lparr>o_overviewText = sections parsed ''overview'',
                                  o_sourceFile = doc_path file, o_lastSyncedAt = clock s 0\<rparr>))"
    by (rule e(2))
  show "created (report (syncPublisher file s)) + updated (report (syncPublisher file s))
                + unchanged (report (syncPublisher file s))
              = created (report s) + updated (report s) + unchanged (report s) + 1"
    by (rule e(3))
  show "publishersProcessed (report (syncPublisher file s)) = publishersProcessed (report s) + 1"
    by (rule e(4))
  show "errors (report (syncPublisher file s)) = errors (report s)"
    by (rule e(5))
next
  assume a: "parseMarkdownFile file = Inr parsed" "gameFrontmatterSchema (frontmatter parsed) = Failure"
  note e = syncGame_invalid_effect[OF a, of s]
  show "games (db (syncGame file s)) =
            (case games (db s) (slugFromPath (doc_path file)) of
               Some e \<Rightarrow> games (db s)
             | None \<Rightarrow> (games (db s))(slugFromPath (doc_path file) \<mapsto>
                          stub_game_row (doc_path file) (clock s 0)))" by (rule e(1))
  show "changes (report (syncGame file s)) = changes (report s)" by (rule e(2))
  show "updated (report (syncGame file s)) = updated (report s)" by (rule e(3))
  show "unchanged (report (syncGame file s)) = unchanged (report s)" by (rule e(4))
  show "gamesProcessed (report (syncGame file s)) = gamesProcessed (report s) + 1" by (rule e(5))
qed

theorem invalid_front_matter_still_upserts_witness:
  "studios (db (syncStudio
       \<lparr>doc_path = ''lib/studios/S.md'',
        doc_matter = Inr (\<lambda>k. JUndefined, ''# Overview\<newline>Made it'')\<rparr>
       (initial_state (\<lambda>n. ''2026-11-02T10:00:00.000Z'') empty_store))) ''S''
     = Some \<lparr>s_director = None, s_overviewText = Some ''Made it'',
             s_sourceFile = ''lib/studios/S.md'', s_lastSyncedAt = ''2026-11-02T10:00:00.000Z''\<rparr>
   \<and> studiosProcessed (report (syncStudio
       \<lparr>doc_path = ''lib/studios/S.md'',
        doc_matter = Inr (\<lambda>k. JUndefined, ''# Overview\<newline>Made it'')\<rparr>
       (initial_state (\<lambda>n. ''2026-11-02T10:00:00.000Z'') empty_store))) = 1"
proof -
  let ?doc = "\<lparr>doc_path = ''lib/studios/S.md'',
        doc_matter = Inr (\<lambda>k. JUndefined, ''# Overview\<newline>Made it'')\<rparr>"
  let ?s = "initial_state (\<lambda>n. ''2026-11-02T10:00:00.000Z'') empty_store"
  let ?parsed = "\<lparr>frontmatter = (\<lambda>k. JUndefined),
        sections = splitContentSections ''# Overview\<newline>Made it'',
        rawContent = ''# Overview\<newline>Made it''\<rparr>"
  have path: "doc_path ?doc = ''lib/studios/S.md''" by simp
  have slug: "slugFromPath ''lib/studios/S.md'' = ''S''" by code_simp
  have parsed: "parseMarkdownFile ?doc = Inr ?parsed"
    by (simp add: parseMarkdownFile_def)
  have invalid: "studioFrontmatterSchema (frontmatter ?parsed) = Failure"
    by (simp add: studioFrontmatterSchema_def)
  have overview: "sections ?parsed ''overview'' = Some ''Made it''"
    unfolding ParsedMarkdown.simps by code_simp
  have none: "studios (db ?s) ''S'' = None" "clock ?s 0 = ''2026-11-02T10:00:00.000Z''"
      "studiosProcessed (report ?s) = 0"
    by (simp_all add: initial_state_def empty_store_def empty_report_def)
  note inst = invalid_front_matter_still_upserts[THEN conjunct1, of "?doc" "?parsed" "?s",
      unfolded path slug]
  from inst parsed invalid
  have "studios (db (syncStudio ?doc ?s)) =
            (if studios (db ?s) ''S'' = None
                \<or> (\<exists>e. studios (db ?s) ''S'' = Some e
                      \<and> \<not> same_comparable (studio_object ''S'' e)
                            (studio_object ''S''
                               \<lparr>s_director = None, s_overviewText = sections ?parsed ''overview'',
                                s_sourceFile = ''lib/studios/S.md'', s_lastSyncedAt = clock ?s 0\<rparr>))
             then (studios (db ?s))(''S'' \<mapsto>
                    \<lparr>s_director = None, s_overviewText = sections ?parsed ''overview'',
                     s_sourceFile = ''lib/studios/S.md'', s_lastSyncedAt = clock ?s 0\<rparr>)
             else studios (db ?s))"
    and "studiosProcessed (report (syncStudio ?doc ?s)) = studiosProcessed (report ?s) + 1"
    by blast+
  then show ?thesis
    unfolding overview none by simp
qed

section \<open>The junction rows of a game\<close>








section \<open>Folds\<close>

lemma fold_frame:
  assumes "\<And>x s. sel (f x s) = sel s"
  shows "sel (fold f xs s) = sel s"
  using assms by (induction xs arbitrary: s) simp_all

lemma fold_invariant:
  assumes "\<And>x s. P s \<Longrightarrow> P (f x s)" and "P s"
  shows "P (fold f xs s)"
  using assms by (induction xs arbitrary: s) simp_all

section \<open>The game-developer table in a run\<close>

lemma insertIfAbsent_eq:
  "insertIfAbsent gameSlug other table =
     (if (gameSlug, other) \<in> set table then table else table @ [(gameSlug, other)])"
proof -
  have "List.find (\<lambda>r. snd r = other) (filter (\<lambda>r. fst r = gameSlug) table) = None
      \<longleftrightarrow> (gameSlug, other) \<notin> set table"
    by (auto simp: find_None_iff)
  then show ?thesis
    by (auto simp: insertIfAbsent_def split: option.split)
qed

lemma insertJunctions_distinct:
  "distinct table \<Longrightarrow> distinct (fst (insertJunctions rs table))"
  by (induction rs arbitrary: table) auto

lemma replaceJunctions_distinct_table:
  "distinct table \<Longrightarrow> distinct (fst (replaceJunctions slug targets table))"
  unfolding replaceJunctions_def by (rule insertJunctions_distinct) simp

lemma fold_insertIfAbsent_distinct:
  "distinct table \<Longrightarrow> distinct (fold (\<lambda>g. insertIfAbsent g other) gs table)"
  by (induction gs arbitrary: table) (auto simp: insertIfAbsent_eq)

lemma fold_insertIfAbsent_set:
  "set (fold (\<lambda>g. insertIfAbsent g other) gs table) = set table \<union> (\<lambda>g. (g, other)) ` set gs"
  by (induction gs arbitrary: table) (auto simp: insertIfAbsent_eq)

lemma replaceGameJunctions_gameDevelopers:
  "gameDevelopers (db (replaceGameJunctions slug fp fm s)) =
     fst (replaceJunctions slug (fm_developer fm) (gameDevelopers (db s)))"
  by (simp add: replaceGameJunctions_def Let_def split_def push_error_fields)

lemma studioJunctions_gameDevelopers:
  "gameDevelopers (db (studioJunctions slug fp fm s)) =
     (case fm of
        None \<Rightarrow> gameDevelopers (db s)
      | Some d \<Rightarrow> fold (\<lambda>g. insertIfAbsent g slug) (sf_games d) (gameDevelopers (db s)))"
  by (simp add: studioJunctions_def Let_def split_def push_error_fields split: option.split)

lemma syncGame_gameDevelopers_distinct:
  "distinct (gameDevelopers (db s)) \<Longrightarrow> distinct (gameDevelopers (db (syncGame file s)))"
  by (simp add: syncGame_def Let_def push_error_fields syncStubGame_other_tables
      replaceGameJunctions_gameDevelopers upsertGame_other_tables replaceJunctions_distinct_table
      split: sum.split safeParse.split)

lemma syncCsvGame_other_tables:
  "studios (db (syncCsvGame entry s)) = studios (db s)"
  "publishers (db (syncCsvGame entry s)) = publishers (db s)"
  "designers (db (syncCsvGame entry s)) = designers (db s)"
  "gameDevelopers (db (syncCsvGame entry s)) = gameDevelopers (db s)"
  "gamePublishers (db (syncCsvGame entry s)) = gamePublishers (db s)"
  "publisherStudios (db (syncCsvGame entry s)) = publisherStudios (db s)"
  "relatedStudios (db (syncCsvGame entry s)) = relatedStudios (db s)"
  "referencedStudios (syncCsvGame entry s) = referencedStudios s"
  "referencedPublishers (syncCsvGame entry s) = referencedPublishers s"
  "referencedDesigners (syncCsvGame entry s) = referencedDesigners s"
  by (simp_all add: syncCsvGame_def Let_def new_Date_def split: option.split)

lemma syncStudio_gameDevelopers:
  "gameDevelopers (db (syncStudio file s)) =
     (case parseMarkdownFile file of
        Inl err \<Rightarrow> gameDevelopers (db s)
      | Inr parsed \<Rightarrow>
          (case studioFrontmatterSchema (frontmatter parsed) of
             Failure \<Rightarrow> gameDevelopers (db s)
           | Success d \<Rightarrow>
               fold (\<lambda>g. insertIfAbsent g (slugFromPath (doc_path file))) (sf_games d)
                 (gameDevelopers (db s))))"
  by (simp add: syncStudio_def Let_def push_error_fields studioJunctions_gameDevelopers
      upsertStudio_other_tables split: sum.split safeParse.split)

lemma syncStudio_gameDevelopers_distinct:
  "distinct (gameDevelopers (db s)) \<Longrightarrow> distinct (gameDevelopers (db (syncStudio file s)))"
  by (simp add: syncStudio_gameDevelopers fold_insertIfAbsent_distinct split: sum.split safeParse.split)

lemma syncStudio_gameDevelopers_mono:
  "set (gameDevelopers (db s)) \<subseteq> set (gameDevelopers (db (syncStudio file s)))"
  by (auto simp: syncStudio_gameDevelopers fold_insertIfAbsent_set split: sum.split safeParse.split)

lemma syncStudio_gameDevelopers_declared:
  assumes "parseMarkdownFile file = Inr parsed"
    and "studioFrontmatterSchema (frontmatter parsed) = Success d"
    and "g \<in> set (sf_games d)"
  shows "(g, slugFromPath (doc_path file)) \<in> set (gameDevelopers (db (syncStudio file s)))"
  using assms by (simp add: syncStudio_gameDevelopers fold_insertIfAbsent_set)

lemma syncPublisher_gameDevelopers:
  "gameDevelopers (db (syncPublisher file s)) = gameDevelopers (db s)"
  by (simp add: syncPublisher_def Let_def push_error_fields publisherJunctions_entities
      upsertPublisher_other_tables split: sum.split)

lemma syncDesigner_gameDevelopers:
  "gameDevelopers (db (syncDesigner file s)) = gameDevelopers (db s)"
  by (simp add: syncDesigner_def Let_def push_error_fields upsertDesigner_other_tables
      split: sum.split)

lemma stub_junctions:
  "gameDevelopers (db (stubStudio x s)) = gameDevelopers (db s)"
  "gameDevelopers (db (stubPublisher x s)) = gameDevelopers (db s)"
  "gameDevelopers (db (stubDesigner x s)) = gameDevelopers (db s)"
  "gamePublishers (db (stubStudio x s)) = gamePublishers (db s)"
  "gamePublishers (db (stubPublisher x s)) = gamePublishers (db s)"
  "gamePublishers (db (stubDesigner x s)) = gamePublishers (db s)"
  "publisherStudios (db (stubStudio x s)) = publisherStudios (db s)"
  "publisherStudios (db (stubPublisher x s)) = publisherStudios (db s)"
  "publisherStudios (db (stubDesigner x s)) = publisherStudios (db s)"
  "relatedStudios (db (stubStudio x s)) = relatedStudios (db s)"
  "relatedStudios (db (stubPublisher x s)) = relatedStudios (db s)"
  "relatedStudios (db (stubDesigner x s)) = relatedStudios (db s)"
  by (simp_all add: stubStudio_def stubPublisher_def stubDesigner_def Let_def new_Date_def
      split: option.split)

lemma createStubs_junctions:
  "gameDevelopers (db (createStubs s)) = gameDevelopers (db s)"
  "gamePublishers (db (createStubs s)) = gamePublishers (db s)"
  "publisherStudios (db (createStubs s)) = publisherStudios (db s)"
  "relatedStudios (db (createStubs s)) = relatedStudios (db s)"
  unfolding createStubs_def Let_def
  by (simp_all add: fold_frame[where sel = "\<lambda>s. gameDevelopers (db s)"]
      fold_frame[where sel = "\<lambda>s. gamePublishers (db s)"]
      fold_frame[where sel = "\<lambda>s. publisherStudios (db s)"]
      fold_frame[where sel = "\<lambda>s. relatedStudios (db s)"] stub_junctions)

lemma distinct_count_list: "distinct xs \<Longrightarrow> x \<in> set xs \<Longrightarrow> count_list xs x = 1"
  by (induction xs) auto

lemma studio_phase_declared:
  assumes "distinct (gameDevelopers (db s))"
    and "studio \<in> set files"
    and "parseMarkdownFile studio = Inr parsed"
    and "studioFrontmatterSchema (frontmatter parsed) = Success d"
    and "g \<in> set (sf_games d)"
  shows "distinct (gameDevelopers (db (fold syncStudio files s)))
       \<and> (g, slugFromPath (doc_path studio)) \<in> set (gameDevelopers (db (fold syncStudio files s)))"
proof -
  from assms(2) obtain pre post where files: "files = pre @ studio # post"
    by (auto simp: in_set_conv_decomp)
  let ?s1 = "fold syncStudio pre s"
  let ?s2 = "syncStudio studio ?s1"
  have d1: "distinct (gameDevelopers (db ?s1))"
    by (rule fold_invariant[where P = "\<lambda>s. distinct (gameDevelopers (db s))"])
      (simp_all add: syncStudio_gameDevelopers_distinct assms(1))
  have d2: "distinct (gameDevelopers (db ?s2))"
    using d1 by (rule syncStudio_gameDevelopers_distinct)
  have m2: "(g, slugFromPath (doc_path studio)) \<in> set (gameDevelopers (db ?s2))"
    using assms(3-5) by (rule syncStudio_gameDevelopers_declared)
  have "distinct (gameDevelopers (db (fold syncStudio post ?s2)))
      \<and> (g, slugFromPath (doc_path studio)) \<in> set (gameDevelopers (db (fold syncStudio post ?s2)))"
    by (rule fold_invariant[where P = "\<lambda>s. distinct (gameDevelopers (db s))
          \<and> (g, slugFromPath (doc_path studio)) \<in> set (gameDevelopers (db s))"])
      (use d2 m2 syncStudio_gameDevelopers_distinct syncStudio_gameDevelopers_mono in blast)+
  then show ?thesis
    by (simp add: files)
qed

lemma transact_gameDevelopers:
  "gameDevelopers (db (transact c csvGames s)) =
     gameDevelopers (db (fold syncStudio (studioFiles c)
       (fold syncCsvGame csvGames (fold syncGame (gameFiles c) s))))"
  unfolding transact_def
  by (simp add: createStubs_junctions
      fold_frame[where sel = "\<lambda>s. gameDevelopers (db s)" and f = syncDesigner]
      fold_frame[where sel = "\<lambda>s. gameDevelopers (db s)" and f = syncPublisher]
      syncDesigner_gameDevelopers syncPublisher_gameDevelopers)

lemma game_phase_distinct:
  "distinct (gameDevelopers (db s)) \<Longrightarrow>
   distinct (gameDevelopers (db (fold syncCsvGame csvGames (fold syncGame files s))))"
  by (simp add: fold_frame[where sel = "\<lambda>s. gameDevelopers (db s)" and f = syncCsvGame]
      syncCsvGame_other_tables
      fold_invariant[where P = "\<lambda>s. distinct (gameDevelopers (db s))" and f = syncGame]
      syncGame_gameDevelopers_distinct)

text \<open>
  C6. When the game-developer table has no pair twice before a run (its primary key), and a
  studio file of the run that passes validation names a game in its \<open>games\<close> list, the table
  after the run holds the pair of that game and the studio exactly once, whatever the game
  files declare, the same pair included: the studio turn inserts a pair only when \<open>find\<close>
  meets no row of the game with the studio.
\<close>

theorem declared_twice_one_row:
  "(distinct (gameDevelopers st)
      \<and> studio \<in> set (studioFiles c)
      \<and> parseMarkdownFile studio = Inr parsed
      \<and> studioFrontmatterSchema (frontmatter parsed) = Success d
      \<and> g \<in> set (sf_games d)
    \<longrightarrow> count_list (gameDevelopers (db (syncAll c clk st))) (g, slugFromPath (doc_path studio)) = 1)
   \<and> insertIfAbsent gameSlug other table =
       (if (gameSlug, other) \<in> set table then table else table @ [(gameSlug, other)])"
proof (intro conjI impI; (elim conjE)?)
  assume a: "distinct (gameDevelopers st)" "studio \<in> set (studioFiles c)"
    "parseMarkdownFile studio = Inr parsed"
    "studioFrontmatterSchema (frontmatter parsed) = Success d" "g \<in> set (sf_games d)"
  have run: "distinct (gameDevelopers (db (transact c csvGames s)))
      \<and> (g, slugFromPath (doc_path studio)) \<in> set (gameDevelopers (db (transact c csvGames s)))"
    if "distinct (gameDevelopers (db s))" for csvGames s
    unfolding transact_gameDevelopers
    by (rule studio_phase_declared[OF game_phase_distinct[OF that] a(2-5)])
  have init: "distinct (gameDevelopers (db (initial_state clk st)))"
    "distinct (gameDevelopers (db (push_error msg (initial_state clk st))))" for msg
    using a(1) by (simp_all add: initial_state_def push_error_fields)
  have "distinct (gameDevelopers (db (syncAll c clk st)))
      \<and> (g, slugFromPath (doc_path studio)) \<in> set (gameDevelopers (db (syncAll c clk st)))"
    unfolding syncAll_def using run init by (auto split: sum.split)
  then show "count_list (gameDevelopers (db (syncAll c clk st))) (g, slugFromPath (doc_path studio)) = 1"
    by (simp add: distinct_count_list)
next
  show "insertIfAbsent gameSlug other table =
       (if (gameSlug, other) \<in> set table then table else table @ [(gameSlug, other)])"
    by (rule insertIfAbsent_eq)
qed

theorem declared_twice_one_row_witness:
  "optionalWikiLinkArray (JArr [JStr ''[[S]]'']) = Success [''S'']
   \<and> count_list (gameDevelopers (db (syncAll
       \<lparr>gameFiles = [\<lparr>doc_path = ''lib/games/G.md'',
          doc_matter = Inr ((\<lambda>k. JUndefined)(''class'' := JStr ''game'',
            ''developer'' := JArr [JStr ''[[S]]'']), [])\<rparr>],
        studioFiles = [\<lparr>doc_path = ''lib/studios/S.md'',
          doc_matter = Inr ((\<lambda>k. JUndefined)(''class'' := JStr ''studio'',
            ''games'' := JArr [JStr ''[[G]]'']), [])\<rparr>],
        publisherFiles = [], designerFiles = [], gamesCsv = None\<rparr>
       (\<lambda>n. ''2026-11-02T10:00:00.000Z'') empty_store))) (''G'', ''S'') = 1"
proof -
  let ?studio = "\<lparr>doc_path = ''lib/studios/S.md'',
          doc_matter = Inr ((\<lambda>k. JUndefined)(''class'' := JStr ''studio'',
            ''games'' := JArr [JStr ''[[G]]'']), [])\<rparr>"
  let ?c = "\<lparr>gameFiles = [\<lparr>doc_path = ''lib/games/G.md'',
          doc_matter = Inr ((\<lambda>k. JUndefined)(''class'' := JStr ''game'',
            ''developer'' := JArr [JStr ''[[S]]'']), [])\<rparr>],
        studioFiles = [?studio], publisherFiles = [], designerFiles = [], gamesCsv = None\<rparr>"
  let ?parsed = "\<lparr>frontmatter = (\<lambda>k. JUndefined)(''class'' := JStr ''studio'',
            ''games'' := JArr [JStr ''[[G]]'']),
        sections = splitContentSections [], rawContent = []\<rparr>"
  let ?d = "\<lparr>sf_director = None, sf_games = [''G''], sf_studios = []\<rparr>"
  have path: "doc_path ?studio = ''lib/studios/S.md''" by simp
  have slug: "slugFromPath ''lib/studios/S.md'' = ''S''" by code_simp
  have linkG: "parseWikiLink ''[[G]]'' = ''G''" by code_simp
  have linkS: "optionalWikiLinkArray (JArr [JStr ''[[S]]'']) = Success [''S'']" by code_simp
  have parsed: "parseMarkdownFile ?studio = Inr ?parsed"
    by (simp add: parseMarkdownFile_def)
  have valid: "studioFrontmatterSchema (frontmatter ?parsed) = Success ?d"
    by (simp add: studioFrontmatterSchema_def and_then_def optionalWikiLinkArray_def linkG)
  have hyps: "distinct (gameDevelopers empty_store)" "?studio \<in> set (studioFiles ?c)"
      "''G'' \<in> set (sf_games ?d)"
    by (simp_all add: empty_store_def)
  note inst = declared_twice_one_row[THEN conjunct1,
      of empty_store "?studio" "?c" "?parsed" "?d" "''G''" "\<lambda>n. ''2026-11-02T10:00:00.000Z''",
      unfolded path slug]
  from inst hyps parsed valid
  have "count_list (gameDevelopers (db (syncAll ?c (\<lambda>n. ''2026-11-02T10:00:00.000Z'') empty_store)))
      (''G'', ''S'') = 1"
    by blast
  with linkS show ?thesis by blast
qed

end
